theory Spec2Isabelle
  imports Main
begin

section \<open>The query AST built by the translation\<close>

text \<open>
  The translation builds objects of the query builder (\<open>Cypher.Node\<close>,
  \<open>Cypher.Relationship\<close>, \<open>Cypher.Match\<close>, \<open>Cypher.Exists\<close>, ...). They are modelled
  as data: a class is a record or a constructor, and a builder function such as
  \<open>Cypher.and\<close> is the constructor \<open>Cypher_and\<close>. A JavaScript object made with
  \<open>new\<close> has an identity; it is the reference number \<open>node_ref\<close> / \<open>rel_ref\<close>, taken
  from a supply the caller passes.
\<close>

datatype lit = LInt int | LStr string | LBool bool

datatype variable = Ref nat | Named string

record Cypher_Node =
  node_ref :: variable
  node_labels :: "string list"

record Cypher_Relationship =
  rel_ref :: variable
  rel_source :: Cypher_Node
  rel_target :: Cypher_Node
  rel_type :: string

text \<open>
  The options object given to \<open>relationship.pattern\<close> for one part of the pattern:
  \<open>{ variable: true }\<close> leaves \<open>labels\<close> undefined, \<open>{ labels: false }\<close> leaves
  \<open>variable\<close> undefined.
\<close>

record part_options =
  opt_variable :: "bool option"
  opt_labels :: "bool option"

record Cypher_Pattern =
  pat_relationship :: Cypher_Relationship
  pat_source :: part_options
  pat_target :: part_options
  pat_rel :: part_options

datatype expr =
    Cypher_Property variable string
  | Param string
  | Cypher_Literal lit
  | NodeExpr Cypher_Node
  | Cypher_size expr
  | Cypher_PatternComprehension Cypher_Pattern expr "predicate option"
and predicate =
    Cypher_eq expr expr
  | Cypher_not predicate
  | Cypher_and predicate predicate
  | Cypher_or predicate predicate
  | Cypher_Exists match_clause
  | Cypher_single Cypher_Node expr predicate
  | ValidatePredicate predicate string
and match_clause =
    Cypher_Match Cypher_Pattern "predicate option"

datatype aggregate = Cypher_collect variable

datatype clause =
    MatchClause match_clause
  | Cypher_OptionalMatch Cypher_Pattern
  | Cypher_With Cypher_Node "(aggregate \<times> variable) list"
  | Cypher_concat "clause list"

section \<open>Relationship filters (create-relationship-operation.ts)\<close>

datatype error = Error string

datatype direction = IN | OUT

record TypeMeta =
  tm_name :: string
  tm_array :: bool

record RelationField =
  rf_direction :: direction
  rf_type :: string
  rf_typeMeta :: TypeMeta

text \<open>
  A node of the schema model. Its class is not among the sources; the two fields are
  the ones the translation reads: the type's name, and the label override of a custom
  label directive (\<open>None\<close> when the type has no override).
\<close>

record Node =
  nd_name :: string
  nd_customLabels :: "string list option"

record SchemaRelationship =
  sr_name :: string

record Context =
  ctx_nodes :: "Node list"
  ctx_relationships :: "SchemaRelationship list"

text \<open>What \<open>createWherePredicate\<close> returns (the function itself is a parameter).\<close>

record WherePredicateResult =
  wp_predicate :: "predicate option"
  wp_preComputedSubqueries :: "clause option"
  wp_returnVariables :: "variable list"

record OperationResult =
  op_predicate :: "predicate option"
  op_preComputedSubquery :: "clause option"

text \<open>
  \<open>createRelationshipSubqueryAndPredicate\<close>: the \<open>switch\<close> over \<open>listPredicateStr\<close>.
  The optional flag \<open>edgePredicate\<close> is \<open>False\<close> when the caller leaves it out, as in
  the recursive call of the \<open>not\<close>/\<open>none\<close> case.
\<close>

function createRelationshipSubqueryAndPredicate ::
  "Cypher_Pattern \<Rightarrow> string \<Rightarrow> Cypher_Node \<Rightarrow> predicate option \<Rightarrow> variable list \<Rightarrow> bool
     \<Rightarrow> predicate option" where
  "createRelationshipSubqueryAndPredicate matchPattern listPredicateStr childNode
       innerOperation returnVariables edgePredicate =
     (case innerOperation of
        None \<Rightarrow> None
      | Some inner \<Rightarrow>
          (let matchClause = Cypher_Match matchPattern (Some inner) in
           if listPredicateStr = ''all'' then
             (let notExistsMatchClause = Cypher_Match matchPattern (Some (Cypher_not inner))
              in Some (Cypher_and (Cypher_Exists matchClause)
                         (Cypher_not (Cypher_Exists notExistsMatchClause))))
           else if listPredicateStr = ''not'' \<or> listPredicateStr = ''none'' then
             (case createRelationshipSubqueryAndPredicate matchPattern ''some'' childNode
                     innerOperation returnVariables False of
                Some somePredicate \<Rightarrow> Some (Cypher_not somePredicate)
              | None \<Rightarrow> None)
           else if listPredicateStr = ''single'' then
             (if edgePredicate then
                (let sizeFunction = Cypher_size
                       (Cypher_PatternComprehension matchPattern (Cypher_Literal (LInt 1))
                          (Some inner))
                 in Some (Cypher_eq sizeFunction (Cypher_Literal (LInt 1))))
              else
                (let patternComprehension =
                       Cypher_PatternComprehension matchPattern (NodeExpr childNode) None
                 in Some (Cypher_single childNode patternComprehension inner)))
           else Some (Cypher_Exists matchClause)))"
  by pat_completeness auto
termination
  by (relation "measure (\<lambda>(m, l, c, i, r, e). if l = ''not'' \<or> l = ''none'' then 1 else 0)")
     auto

declare createRelationshipSubqueryAndPredicate.simps [simp del]

text \<open>
  The relationship object and the match pattern that \<open>createRelationshipOperation\<close>
  builds from the field, the parent node and the child node; \<open>r\<close> is the reference of
  the relationship object.
\<close>

definition matchPatternOf :: "RelationField \<Rightarrow> Cypher_Node \<Rightarrow> Cypher_Node \<Rightarrow> variable \<Rightarrow> Cypher_Pattern" where
  "matchPatternOf relationField parentNode childNode r =
     (let relationship =
            \<lparr> rel_ref = r,
              rel_source = (if rf_direction relationField = IN then childNode else parentNode),
              rel_target = (if rf_direction relationField = IN then parentNode else childNode),
              rel_type = rf_type relationField \<rparr>
      in \<lparr> pat_relationship = relationship,
           pat_source = (if rf_direction relationField = IN
                         then \<lparr> opt_variable = Some True, opt_labels = None \<rparr>
                         else \<lparr> opt_variable = None, opt_labels = Some False \<rparr>),
           pat_target = (if rf_direction relationField = IN
                         then \<lparr> opt_variable = None, opt_labels = Some False \<rparr>
                         else \<lparr> opt_variable = Some True, opt_labels = None \<rparr>),
           pat_rel = \<lparr> opt_variable = Some True, opt_labels = None \<rparr> \<rparr>)"

text \<open>
  \<open>createRelationshipOperation\<close>. The helpers imported from other modules are
  parameters: \<open>labelsOf\<close> (the method \<open>getLabels\<close> of the schema node),
  \<open>getListPredicate\<close> and \<open>createWherePredicate\<close>. \<open>fresh\<close> is the supply of object
  references: the child node takes \<open>fresh\<close> and the relationship \<open>Suc fresh\<close>. The
  filter value is \<open>None\<close> for the null literal.
\<close>

definition createRelationshipOperation ::
  "(Node \<Rightarrow> Context \<Rightarrow> string list) \<Rightarrow> (string option \<Rightarrow> string)
     \<Rightarrow> ('w \<Rightarrow> Cypher_Node \<Rightarrow> Node \<Rightarrow> Context \<Rightarrow> string \<Rightarrow> WherePredicateResult)
     \<Rightarrow> nat \<Rightarrow> RelationField \<Rightarrow> Context \<Rightarrow> Cypher_Node \<Rightarrow> string option \<Rightarrow> 'w option \<Rightarrow> bool
     \<Rightarrow> error + OperationResult" where
  "createRelationshipOperation labelsOf getListPredicate createWherePredicate fresh
       relationField context' parentNode operator whereValue isNot =
     (case find (\<lambda>n. nd_name n = tm_name (rf_typeMeta relationField)) (ctx_nodes context') of
        None \<Rightarrow> Inl (Error ''Relationship filters must reference nodes'')
      | Some refNode \<Rightarrow>
          (let childNode = \<lparr> node_ref = Ref fresh, node_labels = labelsOf refNode context' \<rparr>;
               matchPattern = matchPatternOf relationField parentNode childNode (Ref (Suc fresh))
           in case whereValue of
                None \<Rightarrow>
                  (let existsSubquery = Cypher_Match matchPattern None;
                       exists = Cypher_Exists existsSubquery
                   in if \<not> isNot
                      then Inr \<lparr> op_predicate = Some (Cypher_not exists),
                                 op_preComputedSubquery = None \<rparr>
                      else Inr \<lparr> op_predicate = Some exists, op_preComputedSubquery = None \<rparr>)
              | Some whereInput \<Rightarrow>
                  (let listPredicateStr0 = getListPredicate operator;
                       listPredicateStr =
                         (if listPredicateStr0 = ''any'' \<and> \<not> tm_array (rf_typeMeta relationField)
                          then ''single'' else listPredicateStr0);
                       inner = createWherePredicate whereInput childNode refNode context'
                                 listPredicateStr;
                       innerOperation = wp_predicate inner;
                       preComputedSubqueries = wp_preComputedSubqueries inner;
                       returnVariables = wp_returnVariables inner;
                       predicate = createRelationshipSubqueryAndPredicate matchPattern
                                     listPredicateStr childNode innerOperation returnVariables False
                   in if returnVariables \<noteq> [] then
                        (let aggregatingWithClause =
                               Cypher_With parentNode
                                 (map (\<lambda>returnVar. (Cypher_collect returnVar, returnVar))
                                    returnVariables)
                         in Inr \<lparr> op_predicate = predicate,
                                   op_preComputedSubquery =
                                     Some (Cypher_concat
                                       ([Cypher_OptionalMatch matchPattern]
                                        @ (case preComputedSubqueries of None \<Rightarrow> [] | Some c \<Rightarrow> [c])
                                        @ [aggregatingWithClause])) \<rparr>)
                      else Inr \<lparr> op_predicate = predicate,
                                 op_preComputedSubquery = preComputedSubqueries \<rparr>)))"

section \<open>What a compiled predicate means on a graph\<close>

text \<open>
  The meaning of the query AST is the database's, not the translation's. What a
  compiled filter accepts is stated against the evaluator below: a property graph, the
  rows a relationship pattern binds from a target, and the truth value of a predicate
  on a row.

  Truth values are three: true, false and null (\<open>Some True\<close>, \<open>Some False\<close>,
  \<open>None\<close>). A property that is not stored reads as null, a comparison with null is
  null, \<open>NOT\<close> of null is null, and \<open>AND\<close> / \<open>OR\<close> are the three-valued
  connectives (false \<open>AND\<close> null is false, true \<open>OR\<close> null is true, otherwise null
  spreads). A \<open>WHERE\<close> keeps the rows on which its predicate is true, so a null
  drops the row as a false does. \<open>EXISTS\<close> is true when the match, with its
  \<open>WHERE\<close>, keeps a row, and false otherwise; \<open>size\<close> of a pattern comprehension
  is the number of rows kept. \<open>single\<close> is false when the predicate is true of two
  elements or more, else null when it is null on some element, else it tells whether
  the predicate is true of exactly one element.

  The only failure is the one an assertion (\<open>ValidatePredicate\<close>) raises when its
  condition is true; it aborts the evaluation with its message, and it is true
  otherwise. Where an operand of \<open>AND\<close> / \<open>OR\<close> raises, the outcome depends on
  the order in which the operands are evaluated; the evaluator takes them from left to
  right and does not evaluate the right operand when the left one decides. A predicate
  without assertions never raises, and its value does not depend on that order.
\<close>

record gnode =
  g_id :: nat
  g_labels :: "string list"
  g_props :: "(string \<times> lit) list"

record gedge =
  e_id :: nat
  e_type :: string
  e_src :: nat
  e_tgt :: nat
  e_props :: "(string \<times> lit) list"

record graph =
  g_nodes :: "gnode list"
  g_edges :: "gedge list"

datatype cvalue = VNull | VLit lit | VNode gnode | VEdge gedge | VList "cvalue list"

type_synonym env = "(variable \<times> cvalue) list"

definition var_value :: "env \<Rightarrow> variable \<Rightarrow> cvalue" where
  "var_value env v = (case map_of env v of Some x \<Rightarrow> x | None \<Rightarrow> VNull)"

definition labels_shown :: "part_options \<Rightarrow> bool" where
  "labels_shown opts = (opt_labels opts \<noteq> Some False)"

text \<open>
  Binding one end of a pattern to the graph node with identifier \<open>i\<close>: the node must
  carry every label the pattern shows, and a variable that is already bound must be
  bound to this very node.
\<close>

definition bind_node :: "graph \<Rightarrow> part_options \<Rightarrow> Cypher_Node \<Rightarrow> nat \<Rightarrow> env \<Rightarrow> env option" where
  "bind_node g opts c i env =
     (case find (\<lambda>n. g_id n = i) (g_nodes g) of
        None \<Rightarrow> None
      | Some n \<Rightarrow>
          if labels_shown opts \<and> \<not> set (node_labels c) \<subseteq> set (g_labels n) then None
          else (case map_of env (node_ref c) of
                  None \<Rightarrow> Some ((node_ref c, VNode n) # env)
                | Some v \<Rightarrow> if v = VNode n then Some env else None))"

text \<open>The rows of \<open>MATCH (source)-[rel:TYPE]->(target)\<close> from the bindings \<open>env\<close>.\<close>

definition match_row :: "graph \<Rightarrow> Cypher_Pattern \<Rightarrow> env \<Rightarrow> gedge \<Rightarrow> env option" where
  "match_row g pat env e =
     (let r = pat_relationship pat in
      if e_type e \<noteq> rel_type r then None
      else (case bind_node g (pat_source pat) (rel_source r) (e_src e) env of
              None \<Rightarrow> None
            | Some env1 \<Rightarrow>
                (case bind_node g (pat_target pat) (rel_target r) (e_tgt e) env1 of
                   None \<Rightarrow> None
                 | Some env2 \<Rightarrow> Some ((rel_ref r, VEdge e) # env2))))"

definition match_rows :: "graph \<Rightarrow> Cypher_Pattern \<Rightarrow> env \<Rightarrow> env list" where
  "match_rows g pat env = List.map_filter (match_row g pat env) (g_edges g)"

text \<open>Keeping the elements on which a test is true; the first failure aborts.\<close>

fun filter_ok :: "('a \<Rightarrow> string + bool option) \<Rightarrow> 'a list \<Rightarrow> string + 'a list" where
  "filter_ok h [] = Inr []"
| "filter_ok h (x # xs) =
     (case h x of
        Inl e \<Rightarrow> Inl e
      | Inr t \<Rightarrow> (case filter_ok h xs of
                    Inl e \<Rightarrow> Inl e
                  | Inr ys \<Rightarrow> Inr (if t = Some True then x # ys else ys)))"

fun map_ok :: "('a \<Rightarrow> string + 'b) \<Rightarrow> 'a list \<Rightarrow> string + 'b list" where
  "map_ok h [] = Inr []"
| "map_ok h (x # xs) =
     (case h x of
        Inl e \<Rightarrow> Inl e
      | Inr y \<Rightarrow> (case map_ok h xs of Inl e \<Rightarrow> Inl e | Inr ys \<Rightarrow> Inr (y # ys)))"

definition prop_value :: "(string \<times> lit) list \<Rightarrow> string \<Rightarrow> cvalue" where
  "prop_value props k = (case map_of props k of Some l \<Rightarrow> VLit l | None \<Rightarrow> VNull)"

text \<open>The three-valued connectives, and the value of \<open>single\<close> from the values on the elements.\<close>

definition and3 :: "bool option \<Rightarrow> bool option \<Rightarrow> bool option" where
  "and3 a b = (if a = Some False \<or> b = Some False then Some False
               else if a = Some True \<and> b = Some True then Some True
               else None)"

definition or3 :: "bool option \<Rightarrow> bool option \<Rightarrow> bool option" where
  "or3 a b = (if a = Some True \<or> b = Some True then Some True
              else if a = Some False \<and> b = Some False then Some False
              else None)"

definition single3 :: "bool option list \<Rightarrow> bool option" where
  "single3 ts = (if 1 < length (filter (\<lambda>t. t = Some True) ts) then Some False
                 else if None \<in> set ts then None
                 else Some (length (filter (\<lambda>t. t = Some True) ts) = 1))"

fun eval_expr :: "graph \<Rightarrow> (string \<times> lit) list \<Rightarrow> env \<Rightarrow> expr \<Rightarrow> string + cvalue"
and eval :: "graph \<Rightarrow> (string \<times> lit) list \<Rightarrow> env \<Rightarrow> predicate \<Rightarrow> string + bool option" where
  "eval_expr g ps env (Cypher_Property v k) =
     Inr (case var_value env v of
            VNode n \<Rightarrow> prop_value (g_props n) k
          | VEdge e \<Rightarrow> prop_value (e_props e) k
          | _ \<Rightarrow> VNull)"
| "eval_expr g ps env (Param k) = Inr (prop_value ps k)"
| "eval_expr g ps env (Cypher_Literal l) = Inr (VLit l)"
| "eval_expr g ps env (NodeExpr c) = Inr (var_value env (node_ref c))"
| "eval_expr g ps env (Cypher_size e) =
     (case eval_expr g ps env e of
        Inl x \<Rightarrow> Inl x
      | Inr (VList xs) \<Rightarrow> Inr (VLit (LInt (int (length xs))))
      | Inr _ \<Rightarrow> Inr VNull)"
| "eval_expr g ps env (Cypher_PatternComprehension pat proj w) =
     (case (case w of
              None \<Rightarrow> Inr (match_rows g pat env)
            | Some p \<Rightarrow> filter_ok (\<lambda>row. eval g ps row p) (match_rows g pat env)) of
        Inl x \<Rightarrow> Inl x
      | Inr rows \<Rightarrow>
          (case map_ok (\<lambda>row. eval_expr g ps row proj) rows of
             Inl x \<Rightarrow> Inl x
           | Inr vs \<Rightarrow> Inr (VList vs)))"
| "eval g ps env (Cypher_eq a b) =
     (case eval_expr g ps env a of
        Inl x \<Rightarrow> Inl x
      | Inr u \<Rightarrow> (case eval_expr g ps env b of
                    Inl x \<Rightarrow> Inl x
                  | Inr v \<Rightarrow> Inr (if u = VNull \<or> v = VNull then None else Some (u = v))))"
| "eval g ps env (Cypher_not p) =
     (case eval g ps env p of Inl x \<Rightarrow> Inl x | Inr t \<Rightarrow> Inr (map_option Not t))"
| "eval g ps env (Cypher_and p q) =
     (case eval g ps env p of
        Inl x \<Rightarrow> Inl x
      | Inr a \<Rightarrow> if a = Some False then Inr (Some False)
                 else (case eval g ps env q of Inl x \<Rightarrow> Inl x | Inr b \<Rightarrow> Inr (and3 a b)))"
| "eval g ps env (Cypher_or p q) =
     (case eval g ps env p of
        Inl x \<Rightarrow> Inl x
      | Inr a \<Rightarrow> if a = Some True then Inr (Some True)
                 else (case eval g ps env q of Inl x \<Rightarrow> Inl x | Inr b \<Rightarrow> Inr (or3 a b)))"
| "eval g ps env (Cypher_Exists (Cypher_Match pat w)) =
     (case (case w of
              None \<Rightarrow> Inr (match_rows g pat env)
            | Some p \<Rightarrow> filter_ok (\<lambda>row. eval g ps row p) (match_rows g pat env)) of
        Inl x \<Rightarrow> Inl x
      | Inr rows \<Rightarrow> Inr (Some (rows \<noteq> [])))"
| "eval g ps env (Cypher_single c xs p) =
     (case eval_expr g ps env xs of
        Inl x \<Rightarrow> Inl x
      | Inr (VList vs) \<Rightarrow>
          (case map_ok (\<lambda>v. eval g ps ((node_ref c, v) # env) p) vs of
             Inl x \<Rightarrow> Inl x
           | Inr ts \<Rightarrow> Inr (single3 ts))
      | Inr _ \<Rightarrow> Inr None)"
| "eval g ps env (ValidatePredicate p msg) =
     (case eval g ps env p of
        Inl x \<Rightarrow> Inl x
      | Inr t \<Rightarrow> if t = Some True then Inl msg else Inr (Some True))"

text \<open>
  A predicate holds on a row (it is true there), fails on a row (it is false there), is
  decided on a row (it is one or the other: neither null nor a failure).
\<close>

definition holds :: "graph \<Rightarrow> (string \<times> lit) list \<Rightarrow> predicate \<Rightarrow> env \<Rightarrow> bool" where
  "holds g ps p row = (eval g ps row p = Inr (Some True))"

definition fails :: "graph \<Rightarrow> (string \<times> lit) list \<Rightarrow> predicate \<Rightarrow> env \<Rightarrow> bool" where
  "fails g ps p row = (eval g ps row p = Inr (Some False))"

definition decided :: "graph \<Rightarrow> (string \<times> lit) list \<Rightarrow> predicate \<Rightarrow> env \<Rightarrow> bool" where
  "decided g ps p row = (holds g ps p row \<or> fails g ps p row)"

text \<open>
  The variables a predicate mentions, in its own expressions and in the patterns of
  its sub-queries; two bindings agree on a set of variables when they bind each of them
  alike.
\<close>

definition pattern_refs :: "Cypher_Pattern \<Rightarrow> variable set" where
  "pattern_refs pat =
     {rel_ref (pat_relationship pat), node_ref (rel_source (pat_relationship pat)),
      node_ref (rel_target (pat_relationship pat))}"

fun expr_refs :: "expr \<Rightarrow> variable set"
and pred_refs :: "predicate \<Rightarrow> variable set" where
  "expr_refs (Cypher_Property v k) = {v}"
| "expr_refs (Param k) = {}"
| "expr_refs (Cypher_Literal l) = {}"
| "expr_refs (NodeExpr c) = {node_ref c}"
| "expr_refs (Cypher_size e) = expr_refs e"
| "expr_refs (Cypher_PatternComprehension pat proj w) =
     pattern_refs pat \<union> expr_refs proj \<union> (case w of None \<Rightarrow> {} | Some p \<Rightarrow> pred_refs p)"
| "pred_refs (Cypher_eq a b) = expr_refs a \<union> expr_refs b"
| "pred_refs (Cypher_not p) = pred_refs p"
| "pred_refs (Cypher_and p q) = pred_refs p \<union> pred_refs q"
| "pred_refs (Cypher_or p q) = pred_refs p \<union> pred_refs q"
| "pred_refs (Cypher_Exists (Cypher_Match pat w)) =
     pattern_refs pat \<union> (case w of None \<Rightarrow> {} | Some p \<Rightarrow> pred_refs p)"
| "pred_refs (Cypher_single c xs p) = {node_ref c} \<union> expr_refs xs \<union> pred_refs p"
| "pred_refs (ValidatePredicate p msg) = pred_refs p"

definition agree :: "variable set \<Rightarrow> env \<Rightarrow> env \<Rightarrow> bool" where
  "agree S env env' = (\<forall>v \<in> S. map_of env v = map_of env' v)"

text \<open>A predicate asserts when an assertion (\<open>ValidatePredicate\<close>) occurs in it.\<close>

fun expr_asserts :: "expr \<Rightarrow> bool"
and asserts :: "predicate \<Rightarrow> bool" where
  "expr_asserts (Cypher_Property v k) = False"
| "expr_asserts (Param k) = False"
| "expr_asserts (Cypher_Literal l) = False"
| "expr_asserts (NodeExpr c) = False"
| "expr_asserts (Cypher_size e) = expr_asserts e"
| "expr_asserts (Cypher_PatternComprehension pat proj w) =
     (expr_asserts proj \<or> (case w of None \<Rightarrow> False | Some p \<Rightarrow> asserts p))"
| "asserts (Cypher_eq a b) = (expr_asserts a \<or> expr_asserts b)"
| "asserts (Cypher_not p) = asserts p"
| "asserts (Cypher_and p q) = (asserts p \<or> asserts q)"
| "asserts (Cypher_or p q) = (asserts p \<or> asserts q)"
| "asserts (Cypher_Exists (Cypher_Match pat w)) = (case w of None \<Rightarrow> False | Some p \<Rightarrow> asserts p)"
| "asserts (Cypher_single c xs p) = (expr_asserts xs \<or> asserts p)"
| "asserts (ValidatePredicate p msg) = True"

section \<open>Labels of a schema node\<close>

text \<open>
  Modelled from the spec: the method \<open>getLabels\<close> of the schema node (class \<open>Node\<close>),
  which is not among the sources. The spec gives a node a "label set possibly
  overridden by a custom-label directive" and says that "custom label overrides on a
  Node are substituted verbatim for the type's default label"; the default label is the
  type's name.
\<close>

definition getLabels :: "Node \<Rightarrow> Context \<Rightarrow> string list" where
  "getLabels n ctx = (case nd_customLabels n of Some ls \<Rightarrow> ls | None \<Rightarrow> [nd_name n])"

text \<open>Every pattern that occurs in a predicate.\<close>

fun expr_patterns :: "expr \<Rightarrow> Cypher_Pattern list"
and patterns :: "predicate \<Rightarrow> Cypher_Pattern list" where
  "expr_patterns (Cypher_Property v k) = []"
| "expr_patterns (Param k) = []"
| "expr_patterns (Cypher_Literal l) = []"
| "expr_patterns (NodeExpr c) = []"
| "expr_patterns (Cypher_size e) = expr_patterns e"
| "expr_patterns (Cypher_PatternComprehension pat proj w) =
     pat # expr_patterns proj @ (case w of None \<Rightarrow> [] | Some p \<Rightarrow> patterns p)"
| "patterns (Cypher_eq a b) = expr_patterns a @ expr_patterns b"
| "patterns (Cypher_not p) = patterns p"
| "patterns (Cypher_and p q) = patterns p @ patterns q"
| "patterns (Cypher_or p q) = patterns p @ patterns q"
| "patterns (Cypher_Exists (Cypher_Match pat w)) =
     pat # (case w of None \<Rightarrow> [] | Some p \<Rightarrow> patterns p)"
| "patterns (Cypher_single c xs p) = expr_patterns xs @ patterns p"
| "patterns (ValidatePredicate p msg) = patterns p"


section \<open>Filters on an interface relationship\<close>

text \<open>
  Modelled from the spec: the compilation of a filter on a relationship field whose
  target is an interface. That function is not among the sources (its test is). The
  spec: "each concrete type contributes its own independent match+predicate branch, and
  branches combine with OR at the SOME-equivalent level and AND at the ALL-equivalent
  level", and "NONE/NOT: negation of the SOME form". A branch is what
  \<open>createRelationshipOperation\<close> builds for one concrete type: a child node with that
  type's labels, the inner predicate compiled for that type under the list predicate of
  the filter, and the quantified sub-pattern over the two in the form \<open>form\<close>. The
  \<open>i\<close>-th concrete type takes the object references \<open>fresh + 2 * i\<close> and its
  successor. The spec names no way to combine the branches of \<open>single\<close>; the model
  stops there with the spec's \<open>UnsupportedFilterError\<close>.
\<close>

text \<open>
  Combining predicates with one connective, taken in order; nothing to combine gives no
  predicate.
\<close>

fun combine :: "(predicate \<Rightarrow> predicate \<Rightarrow> predicate) \<Rightarrow> predicate list \<Rightarrow> predicate option" where
  "combine f [] = None"
| "combine f (p # ps) = Some (foldl f p ps)"

definition interfaceBranch ::
  "(Node \<Rightarrow> Context \<Rightarrow> string list)
     \<Rightarrow> ('w \<Rightarrow> Cypher_Node \<Rightarrow> Node \<Rightarrow> Context \<Rightarrow> string \<Rightarrow> WherePredicateResult)
     \<Rightarrow> RelationField \<Rightarrow> Context \<Rightarrow> Cypher_Node \<Rightarrow> string \<Rightarrow> string \<Rightarrow> 'w \<Rightarrow> nat \<Rightarrow> Node
     \<Rightarrow> predicate option" where
  "interfaceBranch labelsOf createWherePredicate relationField ctx parentNode
       listPredicateStr form whereInput r impl =
     (let childNode = \<lparr> node_ref = Ref r, node_labels = labelsOf impl ctx \<rparr>;
          matchPattern = matchPatternOf relationField parentNode childNode (Ref (Suc r));
          inner = createWherePredicate whereInput childNode impl ctx listPredicateStr
      in createRelationshipSubqueryAndPredicate matchPattern form childNode
           (wp_predicate inner) (wp_returnVariables inner) False)"

definition interfaceBranches ::
  "(Node \<Rightarrow> Context \<Rightarrow> string list)
     \<Rightarrow> ('w \<Rightarrow> Cypher_Node \<Rightarrow> Node \<Rightarrow> Context \<Rightarrow> string \<Rightarrow> WherePredicateResult)
     \<Rightarrow> nat \<Rightarrow> RelationField \<Rightarrow> Context \<Rightarrow> Cypher_Node \<Rightarrow> string \<Rightarrow> string \<Rightarrow> 'w \<Rightarrow> Node list
     \<Rightarrow> predicate option list" where
  "interfaceBranches labelsOf createWherePredicate fresh relationField ctx parentNode
       listPredicateStr form whereInput impls =
     map (\<lambda>i. interfaceBranch labelsOf createWherePredicate relationField ctx parentNode
                 listPredicateStr form whereInput (fresh + 2 * i) (impls ! i))
       [0..<length impls]"

definition createInterfaceRelationshipOperation ::
  "(Node \<Rightarrow> Context \<Rightarrow> string list)
     \<Rightarrow> ('w \<Rightarrow> Cypher_Node \<Rightarrow> Node \<Rightarrow> Context \<Rightarrow> string \<Rightarrow> WherePredicateResult)
     \<Rightarrow> nat \<Rightarrow> RelationField \<Rightarrow> Context \<Rightarrow> Cypher_Node \<Rightarrow> string \<Rightarrow> 'w \<Rightarrow> Node list
     \<Rightarrow> error + predicate option" where
  "createInterfaceRelationshipOperation labelsOf createWherePredicate fresh relationField
       ctx parentNode listPredicateStr whereInput impls =
     (if listPredicateStr = ''single'' then Inl (Error ''UnsupportedFilterError'')
      else if listPredicateStr = ''not'' \<or> listPredicateStr = ''none'' then
        Inr (map_option Cypher_not
               (combine Cypher_or
                  (List.map_filter id
                     (interfaceBranches labelsOf createWherePredicate fresh relationField ctx
                        parentNode listPredicateStr ''some'' whereInput impls))))
      else
        Inr (combine (if listPredicateStr = ''all'' then Cypher_and else Cypher_or)
               (List.map_filter id
                  (interfaceBranches labelsOf createWherePredicate fresh relationField ctx
                     parentNode listPredicateStr listPredicateStr whereInput impls))))"

section \<open>Authorization in an edge subquery (createEdgeSubquery)\<close>

record ConnectionField =
  cf_relationship :: RelationField
  cf_relationshipTypeName :: string

text \<open>
  The argument object of \<open>createAuthPredicates\<close>: \<open>where: { varName, node }\<close> asks for
  the filter rules' predicate, \<open>allow: { parentNode, varName }\<close> for the validate rules'.
\<close>

record AuthArgs =
  auth_operations :: string
  auth_entity :: Node
  auth_where :: "(Cypher_Node \<times> Node) option"
  auth_allow :: "(Node \<times> Cypher_Node) option"

record 'p EdgeSubquery =
  es_match :: match_clause
  es_return :: "'p \<times> variable"

text \<open>
  Modelled from the spec: the method \<open>where\<close> of the builder's \<open>Match\<close> clause, which
  is not among the sources. The spec: the "compiled predicate is AND-ed directly into
  the enclosing WHERE"; the first call sets the \<open>WHERE\<close>, a later call conjoins.
\<close>

fun match_where :: "match_clause \<Rightarrow> predicate \<Rightarrow> match_clause" where
  "match_where (Cypher_Match pat None) p = Cypher_Match pat (Some p)"
| "match_where (Cypher_Match pat (Some q)) p = Cypher_Match pat (Some (Cypher_and q p))"

fun where_of :: "match_clause \<Rightarrow> predicate option" where
  "where_of (Cypher_Match pat w) = w"


text \<open>
  \<open>createEdgeSubquery\<close>. Parameters for what other modules provide: \<open>labelsOf\<close>
  (\<open>getLabels\<close>), \<open>getPattern\<close>, \<open>createConnectionWherePropertyOperation\<close>,
  \<open>createAuthPredicates\<close>, \<open>createEdgeProjection\<close> (with the sort fields it is
  given), and the constant \<open>AUTH_FORBIDDEN_ERROR\<close>, whose declaration is not among
  the sources. \<open>getOrCreateCypherNode\<close> gives the node named \<open>parentNode\<close>; the
  relationship object takes the reference \<open>fresh\<close>. \<open>whereInput\<close> is \<open>None\<close> when the
  caller passes none.
\<close>

definition createEdgeSubquery ::
  "(Node \<Rightarrow> Context \<Rightarrow> string list)
     \<Rightarrow> (Cypher_Relationship \<Rightarrow> RelationField \<Rightarrow> 'r \<Rightarrow> Cypher_Pattern)
     \<Rightarrow> (Context \<Rightarrow> 'w \<Rightarrow> Cypher_Relationship \<Rightarrow> Cypher_Node \<Rightarrow> Node
           \<Rightarrow> SchemaRelationship option \<Rightarrow> predicate option)
     \<Rightarrow> (AuthArgs \<Rightarrow> Context \<Rightarrow> predicate option)
     \<Rightarrow> ('r \<Rightarrow> ConnectionField \<Rightarrow> Cypher_Relationship \<Rightarrow> Node \<Rightarrow> variable \<Rightarrow> Context \<Rightarrow> 'p)
     \<Rightarrow> string \<Rightarrow> nat
     \<Rightarrow> 'r \<Rightarrow> ConnectionField \<Rightarrow> Context \<Rightarrow> string \<Rightarrow> Node \<Rightarrow> variable \<Rightarrow> 'w option
     \<Rightarrow> 'p EdgeSubquery" where
  "createEdgeSubquery labelsOf getPattern createConnectionWherePropertyOperation
       createAuthPredicates createEdgeProjection AUTH_FORBIDDEN_ERROR fresh
       resolveTree field ctx parentNode relatedNode returnVariable whereInput =
     (let parentNodeRef = \<lparr> node_ref = Named parentNode, node_labels = [] \<rparr>;
          relatedNodeRef = \<lparr> node_ref = Named (parentNode @ ''_'' @ nd_name relatedNode),
                             node_labels = labelsOf relatedNode ctx \<rparr>;
          relationshipRef = \<lparr> rel_ref = Ref fresh, rel_source = parentNodeRef,
                              rel_target = relatedNodeRef,
                              rel_type = rf_type (cf_relationship field) \<rparr>;
          relPattern = getPattern relationshipRef (cf_relationship field) resolveTree;
          matchClause0 = Cypher_Match relPattern None;
          matchClause1 =
            (case whereInput of
               None \<Rightarrow> matchClause0
             | Some wi \<Rightarrow>
                 (let relationship = find (\<lambda>r. sr_name r = cf_relationshipTypeName field)
                                       (ctx_relationships ctx);
                      wherePredicate = createConnectionWherePropertyOperation ctx wi
                                         relationshipRef relatedNodeRef relatedNode relationship
                  in case wherePredicate of
                       None \<Rightarrow> matchClause0
                     | Some wp \<Rightarrow> match_where matchClause0 wp));
          authPredicate = createAuthPredicates
            \<lparr> auth_operations = ''READ'', auth_entity = relatedNode,
              auth_where = Some (relatedNodeRef, relatedNode), auth_allow = None \<rparr> ctx;
          matchClause2 =
            (case authPredicate of
               None \<Rightarrow> matchClause1
             | Some ap \<Rightarrow> match_where matchClause1 ap);
          authAllowPredicate = createAuthPredicates
            \<lparr> auth_operations = ''READ'', auth_entity = relatedNode,
              auth_where = None, auth_allow = Some (relatedNode, relatedNodeRef) \<rparr> ctx;
          matchClause3 =
            (case authAllowPredicate of
               None \<Rightarrow> matchClause2
             | Some aap \<Rightarrow>
                 match_where matchClause2
                   (ValidatePredicate (Cypher_not aap) AUTH_FORBIDDEN_ERROR));
          projection = createEdgeProjection resolveTree field relationshipRef relatedNode
                         (node_ref relatedNodeRef) ctx
      in \<lparr> es_match = matchClause3, es_return = (projection, returnVariable) \<rparr>)"

text \<open>
  The truth value of an optional \<open>WHERE\<close> on a row: no \<open>WHERE\<close> is true of every
  row. The row is kept when the value is true.
\<close>

definition eval_where ::
  "graph \<Rightarrow> (string \<times> lit) list \<Rightarrow> env \<Rightarrow> predicate option \<Rightarrow> string + bool option" where
  "eval_where g ps row w = (case w of None \<Rightarrow> Inr (Some True) | Some p \<Rightarrow> eval g ps row p)"

definition holds_opt :: "graph \<Rightarrow> (string \<times> lit) list \<Rightarrow> predicate option \<Rightarrow> env \<Rightarrow> bool" where
  "holds_opt g ps w row = (eval_where g ps row w = Inr (Some True))"

definition fails_opt :: "graph \<Rightarrow> (string \<times> lit) list \<Rightarrow> predicate option \<Rightarrow> env \<Rightarrow> bool" where
  "fails_opt g ps w row = (eval_where g ps row w = Inr (Some False))"

definition asserts_opt :: "predicate option \<Rightarrow> bool" where
  "asserts_opt w = (case w of None \<Rightarrow> False | Some p \<Rightarrow> asserts p)"

section \<open>Parameters of connect-or-create (create-connect-or-create-and-params.ts)\<close>















section \<open>Parameter names of a rendering\<close>




section \<open>Populated-by callbacks\<close>

text \<open>
  Modelled from the spec: the application of a populated-by callback to a stored
  record, which is not among the sources (its tests are). The spec: "returning null
  from a callback removes the stored property, returning no value leaves any existing
  stored value untouched -- both are terminal per-field outcomes, not retried". The
  callback is a function of the number of the invocation, so that a second invocation
  could answer differently; \<open>pb_calls\<close> counts the invocations made so far. A stored
  record maps property names to values, and a property that is not stored reads as
  null (\<open>None\<close>).
\<close>

datatype 'v callback_result = Undefined | Null | Value 'v

record 'v populated =
  pb_props :: "string \<rightharpoonup> 'v"
  pb_calls :: nat

definition applyPopulatedBy ::
  "string \<Rightarrow> (nat \<Rightarrow> 'v callback_result) \<Rightarrow> 'v populated \<Rightarrow> 'v populated" where
  "applyPopulatedBy field callback st =
     (case callback (pb_calls st) of
        Undefined \<Rightarrow> st \<lparr> pb_calls := Suc (pb_calls st) \<rparr>
      | Null \<Rightarrow> st \<lparr> pb_props := (pb_props st)(field := None), pb_calls := Suc (pb_calls st) \<rparr>
      | Value v \<Rightarrow> st \<lparr> pb_props := (pb_props st)(field \<mapsto> v), pb_calls := Suc (pb_calls st) \<rparr>)"

definition readField :: "'v populated \<Rightarrow> string \<Rightarrow> 'v option" where
  "readField st field = pb_props st field"

section \<open>Fixtures\<close>

text \<open>
  A small graph of movies and actors: "Matrix" has two actors, Keanu (as Neo) and
  Carrie (as Trinity); "Silence" has none. The filter under test is on the field
  \<open>actors\<close> of a movie, and its inner predicate compares the actor's name, or the
  role stored on the relationship, with the parameter \<open>param0\<close>.
\<close>

definition fx_parent :: Cypher_Node where
  "fx_parent = \<lparr> node_ref = Ref 0, node_labels = [''Movie''] \<rparr>"

definition fx_child :: Cypher_Node where
  "fx_child = \<lparr> node_ref = Ref 1, node_labels = [''Actor''] \<rparr>"

definition fx_actors :: RelationField where
  "fx_actors = \<lparr> rf_direction = IN, rf_type = ''ACTED_IN'',
                  rf_typeMeta = \<lparr> tm_name = ''Actor'', tm_array = True \<rparr> \<rparr>"

definition fx_pattern :: Cypher_Pattern where
  "fx_pattern = matchPatternOf fx_actors fx_parent fx_child (Ref 2)"

definition fx_matrix :: gnode where
  "fx_matrix = \<lparr> g_id = 0, g_labels = [''Movie''], g_props = [(''title'', LStr ''Matrix'')] \<rparr>"

definition fx_silence :: gnode where
  "fx_silence = \<lparr> g_id = 3, g_labels = [''Movie''], g_props = [(''title'', LStr ''Silence'')] \<rparr>"

definition fx_graph :: graph where
  "fx_graph =
     \<lparr> g_nodes =
         [fx_matrix,
          \<lparr> g_id = 1, g_labels = [''Actor''], g_props = [(''name'', LStr ''Keanu'')] \<rparr>,
          \<lparr> g_id = 2, g_labels = [''Actor''], g_props = [(''name'', LStr ''Carrie'')] \<rparr>,
          fx_silence],
       g_edges =
         [\<lparr> e_id = 0, e_type = ''ACTED_IN'', e_src = 1, e_tgt = 0,
            e_props = [(''role'', LStr ''Neo'')] \<rparr>,
          \<lparr> e_id = 1, e_type = ''ACTED_IN'', e_src = 2, e_tgt = 0,
            e_props = [(''role'', LStr ''Trinity'')] \<rparr>] \<rparr>"

text \<open>
  Two other casts of "Matrix": one where the second actor has no stored name, and one
  where Keanu is the only actor and plays two roles, so that two relationships relate
  the one actor to the movie.
\<close>

definition fx_keanu_actor :: gnode where
  "fx_keanu_actor = \<lparr> g_id = 1, g_labels = [''Actor''], g_props = [(''name'', LStr ''Keanu'')] \<rparr>"

definition fx_nameless :: graph where
  "fx_nameless =
     \<lparr> g_nodes =
         [fx_matrix, fx_keanu_actor, \<lparr> g_id = 2, g_labels = [''Actor''], g_props = [] \<rparr>],
       g_edges =
         [\<lparr> e_id = 0, e_type = ''ACTED_IN'', e_src = 1, e_tgt = 0,
            e_props = [(''role'', LStr ''Neo'')] \<rparr>,
          \<lparr> e_id = 1, e_type = ''ACTED_IN'', e_src = 2, e_tgt = 0,
            e_props = [(''role'', LStr ''Trinity'')] \<rparr>] \<rparr>"

definition fx_nameless_rows :: "env list" where
  "fx_nameless_rows =
     [[(Ref 2, VEdge \<lparr> e_id = 0, e_type = ''ACTED_IN'', e_src = 1, e_tgt = 0,
                      e_props = [(''role'', LStr ''Neo'')] \<rparr>),
       (Ref 1, VNode fx_keanu_actor),
       (Ref 0, VNode fx_matrix)],
      [(Ref 2, VEdge \<lparr> e_id = 1, e_type = ''ACTED_IN'', e_src = 2, e_tgt = 0,
                      e_props = [(''role'', LStr ''Trinity'')] \<rparr>),
       (Ref 1, VNode \<lparr> g_id = 2, g_labels = [''Actor''], g_props = [] \<rparr>),
       (Ref 0, VNode fx_matrix)]]"

definition fx_two_roles :: graph where
  "fx_two_roles =
     \<lparr> g_nodes = [fx_matrix, fx_keanu_actor],
       g_edges =
         [\<lparr> e_id = 0, e_type = ''ACTED_IN'', e_src = 1, e_tgt = 0,
            e_props = [(''role'', LStr ''Neo'')] \<rparr>,
          \<lparr> e_id = 1, e_type = ''ACTED_IN'', e_src = 1, e_tgt = 0,
            e_props = [(''role'', LStr ''Anderson'')] \<rparr>] \<rparr>"

definition fx_two_roles_rows :: "env list" where
  "fx_two_roles_rows =
     [[(Ref 2, VEdge \<lparr> e_id = 0, e_type = ''ACTED_IN'', e_src = 1, e_tgt = 0,
                      e_props = [(''role'', LStr ''Neo'')] \<rparr>),
       (Ref 1, VNode fx_keanu_actor),
       (Ref 0, VNode fx_matrix)],
      [(Ref 2, VEdge \<lparr> e_id = 1, e_type = ''ACTED_IN'', e_src = 1, e_tgt = 0,
                      e_props = [(''role'', LStr ''Anderson'')] \<rparr>),
       (Ref 1, VNode fx_keanu_actor),
       (Ref 0, VNode fx_matrix)]]"

definition fx_name_is :: predicate where
  "fx_name_is = Cypher_eq (Cypher_Property (Ref 1) ''name'') (Param ''param0'')"

definition fx_role_is :: predicate where
  "fx_role_is = Cypher_eq (Cypher_Property (Ref 2) ''role'') (Param ''param0'')"

definition fx_keanu :: "(string \<times> lit) list" where
  "fx_keanu = [(''param0'', LStr ''Keanu'')]"

definition fx_neo :: "(string \<times> lit) list" where
  "fx_neo = [(''param0'', LStr ''Neo'')]"

text \<open>
  A schema for the structural examples: \<open>Movie\<close> carries the custom label \<open>Film\<close>,
  \<open>Actor\<close> and \<open>Person\<close> have none; \<open>movies\<close> is a list field of an actor and
  \<open>director\<close> a to-one field of a movie. \<open>fx_getListPredicate\<close> and
  \<open>fx_createWherePredicate\<close> stand for the two helpers: the first maps the operator
  suffix to the list predicate, the second compiles the filter \<open>{ name: w }\<close>.
\<close>

definition fx_movie_type :: Node where
  "fx_movie_type = \<lparr> nd_name = ''Movie'', nd_customLabels = Some [''Film''] \<rparr>"

definition fx_context :: Context where
  "fx_context =
     \<lparr> ctx_nodes = [fx_movie_type,
                     \<lparr> nd_name = ''Actor'', nd_customLabels = None \<rparr>,
                     \<lparr> nd_name = ''Person'', nd_customLabels = None \<rparr>],
       ctx_relationships = [\<lparr> sr_name = ''ActedIn'' \<rparr>] \<rparr>"

definition fx_movies :: RelationField where
  "fx_movies = \<lparr> rf_direction = OUT, rf_type = ''ACTED_IN'',
                  rf_typeMeta = \<lparr> tm_name = ''Movie'', tm_array = True \<rparr> \<rparr>"

definition fx_director :: RelationField where
  "fx_director = \<lparr> rf_direction = IN, rf_type = ''DIRECTED'',
                    rf_typeMeta = \<lparr> tm_name = ''Person'', tm_array = False \<rparr> \<rparr>"

definition fx_getListPredicate :: "string option \<Rightarrow> string" where
  "fx_getListPredicate operator =
     (if operator = Some ''ALL'' then ''all''
      else if operator = Some ''NOT'' \<or> operator = Some ''NONE'' then ''none''
      else if operator = Some ''SINGLE'' then ''single''
      else ''any'')"

definition fx_createWherePredicate ::
  "string \<Rightarrow> Cypher_Node \<Rightarrow> Node \<Rightarrow> Context \<Rightarrow> string \<Rightarrow> WherePredicateResult" where
  "fx_createWherePredicate w childNode n ctx l =
     \<lparr> wp_predicate =
         Some (Cypher_eq (Cypher_Property (node_ref childNode) ''name'') (Cypher_Literal (LStr w))),
       wp_preComputedSubqueries = None,
       wp_returnVariables = [] \<rparr>"

text \<open>
  Houses and the animals that live in them (the interface \<open>Animal\<close> with the concrete
  types \<open>Dog\<close> and \<open>Cat\<close>): Roxy the dog lives in the first house, Nala the cat in the
  second.
\<close>

definition fx_animals :: RelationField where
  "fx_animals = \<lparr> rf_direction = IN, rf_type = ''LIVES_IN'',
                   rf_typeMeta = \<lparr> tm_name = ''Animal'', tm_array = True \<rparr> \<rparr>"

definition fx_animal_types :: "Node list" where
  "fx_animal_types = [\<lparr> nd_name = ''Dog'', nd_customLabels = None \<rparr>,
                      \<lparr> nd_name = ''Cat'', nd_customLabels = None \<rparr>]"

definition fx_house :: Cypher_Node where
  "fx_house = \<lparr> node_ref = Ref 0, node_labels = [''House''] \<rparr>"

definition fx_second_house :: gnode where
  "fx_second_house = \<lparr> g_id = 2, g_labels = [''House''], g_props = [(''address'', LStr ''2 Elm'')] \<rparr>"

definition fx_houses :: graph where
  "fx_houses =
     \<lparr> g_nodes =
         [\<lparr> g_id = 0, g_labels = [''House''], g_props = [(''address'', LStr ''1 Oak'')] \<rparr>,
          \<lparr> g_id = 1, g_labels = [''Dog''], g_props = [(''name'', LStr ''Roxy'')] \<rparr>,
          fx_second_house,
          \<lparr> g_id = 3, g_labels = [''Cat''], g_props = [(''name'', LStr ''Nala'')] \<rparr>],
       g_edges =
         [\<lparr> e_id = 0, e_type = ''LIVES_IN'', e_src = 1, e_tgt = 0, e_props = [] \<rparr>,
          \<lparr> e_id = 1, e_type = ''LIVES_IN'', e_src = 3, e_tgt = 2, e_props = [] \<rparr>] \<rparr>"

text \<open>
  Posts with an owner, read through an edge subquery: the filter rule keeps published
  posts, the validate rule requires the owner to be the caller (\<open>jwt_id\<close>).
\<close>

definition fx_post_type :: Node where
  "fx_post_type = \<lparr> nd_name = ''Post'', nd_customLabels = None \<rparr>"

definition fx_posts :: ConnectionField where
  "fx_posts = \<lparr> cf_relationship =
                   \<lparr> rf_direction = OUT, rf_type = ''WROTE'',
                     rf_typeMeta = \<lparr> tm_name = ''Post'', tm_array = True \<rparr> \<rparr>,
                 cf_relationshipTypeName = ''Wrote'' \<rparr>"

definition fx_getPattern :: "Cypher_Relationship \<Rightarrow> RelationField \<Rightarrow> unit \<Rightarrow> Cypher_Pattern" where
  "fx_getPattern r f t =
     \<lparr> pat_relationship = r,
       pat_source = \<lparr> opt_variable = None, opt_labels = Some False \<rparr>,
       pat_target = \<lparr> opt_variable = None, opt_labels = None \<rparr>,
       pat_rel = \<lparr> opt_variable = None, opt_labels = None \<rparr> \<rparr>"

definition fx_createAuthPredicates :: "AuthArgs \<Rightarrow> Context \<Rightarrow> predicate option" where
  "fx_createAuthPredicates args ctx =
     (case auth_where args of
        Some (v, n) \<Rightarrow>
          Some (Cypher_eq (Cypher_Property (node_ref v) ''published'') (Cypher_Literal (LBool True)))
      | None \<Rightarrow>
          (case auth_allow args of
             Some (n, v) \<Rightarrow>
               Some (Cypher_eq (Cypher_Property (node_ref v) ''ownerId'') (Param ''jwt_id''))
           | None \<Rightarrow> None))"

definition fx_post :: "string \<Rightarrow> bool \<Rightarrow> env" where
  "fx_post owner published =
     [(Named ''this_Post'',
       VNode \<lparr> g_id = 7, g_labels = [''Post''],
               g_props = [(''ownerId'', LStr owner), (''published'', LBool published)] \<rparr>)]"









text \<open>The two branches of the filter \<open>{ name: "Nala" }\<close> on the animals of a house.\<close>

definition fx_dog_branch :: predicate where
  "fx_dog_branch = Cypher_Exists (Cypher_Match
     (matchPatternOf fx_animals fx_house \<lparr> node_ref = Ref 1, node_labels = [''Dog''] \<rparr> (Ref 2))
     (Some (Cypher_eq (Cypher_Property (Ref 1) ''name'') (Cypher_Literal (LStr ''Nala'')))))"

definition fx_cat_branch :: predicate where
  "fx_cat_branch = Cypher_Exists (Cypher_Match
     (matchPatternOf fx_animals fx_house \<lparr> node_ref = Ref 3, node_labels = [''Cat''] \<rparr> (Ref 4))
     (Some (Cypher_eq (Cypher_Property (Ref 3) ''name'') (Cypher_Literal (LStr ''Nala'')))))"

text \<open>The two rules on a post, the edge subquery that reads posts, and the caller's claims.\<close>

definition fx_published :: predicate where
  "fx_published = Cypher_eq (Cypher_Property (Named ''this_Post'') ''published'') (Cypher_Literal (LBool True))"

definition fx_is_owner :: predicate where
  "fx_is_owner = Cypher_eq (Cypher_Property (Named ''this_Post'') ''ownerId'') (Param ''jwt_id'')"

definition fx_edge_subquery :: "unit EdgeSubquery" where
  "fx_edge_subquery = createEdgeSubquery getLabels fx_getPattern (\<lambda>c w r t n s. None)
     fx_createAuthPredicates (\<lambda>t f r n v c. ()) ''Forbidden'' 0 () fx_posts fx_context ''this''
     fx_post_type (Named ''edge'') (None :: unit option)"

definition fx_claims :: "(string \<times> lit) list" where
  "fx_claims = [(''jwt_id'', LStr ''u1'')]"

text \<open>
  A stored record with an identifier and a value in the callback field; one callback
  returns null and another no value on the first invocation, and both would return a
  string on a second one.
\<close>

definition fx_stored :: "string populated" where
  "fx_stored = \<lparr> pb_props = [''id'' \<mapsto> ''m1'', ''callback'' \<mapsto> ''old''], pb_calls = 0 \<rparr>"

definition fx_returns_null :: "nat \<Rightarrow> string callback_result" where
  "fx_returns_null n = (if n = 0 then Null else Value ''again'')"

definition fx_returns_nothing :: "nat \<Rightarrow> string callback_result" where
  "fx_returns_nothing n = (if n = 0 then Undefined else Value ''again'')"

section \<open>Evaluation lemmas\<close>

lemmas fx_defs = fx_parent_def fx_child_def fx_actors_def fx_pattern_def fx_matrix_def fx_silence_def
  fx_graph_def fx_name_is_def fx_role_is_def fx_keanu_def fx_neo_def

lemmas sem_defs = matchPatternOf_def match_rows_def match_row_def bind_node_def labels_shown_def
  prop_value_def var_value_def List.map_filter_def holds_def fails_def decided_def

lemmas schema_defs = fx_movie_type_def fx_context_def fx_movies_def fx_director_def
  fx_getListPredicate_def fx_createWherePredicate_def

lemmas house_defs = fx_animals_def fx_animal_types_def fx_house_def fx_second_house_def fx_houses_def
  fx_createWherePredicate_def

lemma fx_silence_rows: "match_rows fx_graph fx_pattern [(Ref 0, VNode fx_silence)] = []"
  by (simp add: fx_defs sem_defs)

lemma fx_matrix_rows:
  "match_rows fx_graph fx_pattern [(Ref 0, VNode fx_matrix)] =
     [[(Ref 2, VEdge \<lparr> e_id = 0, e_type = ''ACTED_IN'', e_src = 1, e_tgt = 0,
                      e_props = [(''role'', LStr ''Neo'')] \<rparr>),
       (Ref 1, VNode \<lparr> g_id = 1, g_labels = [''Actor''], g_props = [(''name'', LStr ''Keanu'')] \<rparr>),
       (Ref 0, VNode fx_matrix)],
      [(Ref 2, VEdge \<lparr> e_id = 1, e_type = ''ACTED_IN'', e_src = 2, e_tgt = 0,
                      e_props = [(''role'', LStr ''Trinity'')] \<rparr>),
       (Ref 1, VNode \<lparr> g_id = 2, g_labels = [''Actor''], g_props = [(''name'', LStr ''Carrie'')] \<rparr>),
       (Ref 0, VNode fx_matrix)]]"
  by (simp add: fx_defs sem_defs)

lemma fx_nameless_match:
  "match_rows fx_nameless fx_pattern [(Ref 0, VNode fx_matrix)] = fx_nameless_rows"
  by (simp add: fx_defs sem_defs fx_nameless_def fx_nameless_rows_def fx_keanu_actor_def)

lemma fx_two_roles_match:
  "match_rows fx_two_roles fx_pattern [(Ref 0, VNode fx_matrix)] = fx_two_roles_rows"
  by (simp add: fx_defs sem_defs fx_two_roles_def fx_two_roles_rows_def fx_keanu_actor_def)

lemma fx_find_person:
  "find (\<lambda>n. nd_name n = tm_name (rf_typeMeta fx_director)) (ctx_nodes fx_context) =
     Some \<lparr> nd_name = ''Person'', nd_customLabels = None \<rparr>"
  by (simp add: schema_defs)


lemma filter_ok_values:
  "(\<And>x. x \<in> set xs \<Longrightarrow> h x = Inr (f x)) \<Longrightarrow>
     filter_ok h xs = Inr (filter (\<lambda>x. f x = Some True) xs)"
  by (induction xs) auto

lemma map_ok_total: "map_ok (\<lambda>x. Inr (f x)) xs = Inr (map f xs)"
  by (induction xs) auto

lemma map_ok_values:
  "(\<And>x. x \<in> set xs \<Longrightarrow> h x = Inr (f x)) \<Longrightarrow> map_ok h xs = Inr (map f xs)"
  by (induction xs) auto

lemma holds_not: "holds g ps (Cypher_not p) = fails g ps p"
proof
  fix row show "holds g ps (Cypher_not p) row = fails g ps p row"
    by (cases "eval g ps row p") (auto simp: holds_def fails_def)
qed

lemma not_holds_and_fails: "\<not> (holds g ps p row \<and> fails g ps p row)"
  by (simp add: holds_def fails_def)

lemma where_rows_total:
  assumes "\<forall>row \<in> set rows. \<exists>t. eval g ps row p = Inr t"
  shows "filter_ok (\<lambda>row. eval g ps row p) rows = Inr (filter (holds g ps p) rows)"
proof -
  define f where "f row = (case eval g ps row p of Inr t \<Rightarrow> t | Inl x \<Rightarrow> None)" for row
  have "\<And>row. row \<in> set rows \<Longrightarrow> eval g ps row p = Inr (f row)"
    using assms by (auto simp: f_def)
  then have "filter_ok (\<lambda>row. eval g ps row p) rows = Inr (filter (\<lambda>row. f row = Some True) rows)"
    by (rule filter_ok_values)
  moreover have "filter (\<lambda>row. f row = Some True) rows = filter (holds g ps p) rows"
    using assms by (intro filter_cong) (auto simp: f_def holds_def)
  ultimately show ?thesis by simp
qed

lemma where_rows_negated:
  assumes "\<forall>row \<in> set rows. \<exists>t. eval g ps row p = Inr t"
  shows "filter_ok (\<lambda>row. eval g ps row (Cypher_not p)) rows = Inr (filter (fails g ps p) rows)"
proof -
  from assms have "\<forall>row \<in> set rows. \<exists>t. eval g ps row (Cypher_not p) = Inr t" by auto
  then have "filter_ok (\<lambda>row. eval g ps row (Cypher_not p)) rows
             = Inr (filter (holds g ps (Cypher_not p)) rows)"
    by (rule where_rows_total)
  then show ?thesis by (simp only: holds_not)
qed

lemma some_form: "l \<noteq> ''all'' \<Longrightarrow> l \<noteq> ''not'' \<Longrightarrow> l \<noteq> ''none'' \<Longrightarrow> l \<noteq> ''single'' \<Longrightarrow>
  createRelationshipSubqueryAndPredicate pat l c (Some p) rv e = Some (Cypher_Exists (Cypher_Match pat (Some p)))"
  by (simp add: createRelationshipSubqueryAndPredicate.simps)

lemma all_form: "createRelationshipSubqueryAndPredicate pat ''all'' c (Some p) rv e =
   Some (Cypher_and (Cypher_Exists (Cypher_Match pat (Some p)))
                    (Cypher_not (Cypher_Exists (Cypher_Match pat (Some (Cypher_not p))))))"
  by (simp add: createRelationshipSubqueryAndPredicate.simps)

lemma none_form: "l = ''not'' \<or> l = ''none'' \<Longrightarrow> createRelationshipSubqueryAndPredicate pat l c (Some p) rv e =
   Some (Cypher_not (Cypher_Exists (Cypher_Match pat (Some p))))"
  by (auto simp add: createRelationshipSubqueryAndPredicate.simps)

lemma single_form: "createRelationshipSubqueryAndPredicate pat ''single'' c (Some p) rv e =
   Some (if e then Cypher_eq (Cypher_size (Cypher_PatternComprehension pat (Cypher_Literal (LInt 1)) (Some p)))
                     (Cypher_Literal (LInt 1))
         else Cypher_single c (Cypher_PatternComprehension pat (NodeExpr c) None) p)"
  by (simp add: createRelationshipSubqueryAndPredicate.simps)

lemma eval_exists_total:
  assumes "\<forall>row \<in> set (match_rows g pat env). \<exists>t. eval g ps row p = Inr t"
  shows "eval g ps env (Cypher_Exists (Cypher_Match pat (Some p))) =
         Inr (Some (\<exists>row \<in> set (match_rows g pat env). holds g ps p row))"
  using assms by (simp add: where_rows_total filter_empty_conv)

lemma eval_exists_negated:
  assumes "\<forall>row \<in> set (match_rows g pat env). \<exists>t. eval g ps row p = Inr t"
  shows "eval g ps env (Cypher_Exists (Cypher_Match pat (Some (Cypher_not p)))) =
         Inr (Some (\<exists>row \<in> set (match_rows g pat env). fails g ps p row))"
  using where_rows_negated [OF assms] by (simp add: filter_empty_conv)

lemma no_inner: "createRelationshipSubqueryAndPredicate pat l c None rv e = None"
  by (simp add: createRelationshipSubqueryAndPredicate.simps)

text \<open>A predicate without assertions never raises: it has a value, possibly null, on every row.\<close>

lemma filter_ok_total:
  assumes "\<And>x. \<exists>t. h x = Inr t"
  shows "\<exists>ys. filter_ok h xs = Inr ys"
proof (induction xs)
  case Nil
  show ?case by simp
next
  case (Cons x xs)
  from assms obtain t where "h x = Inr t" by blast
  with Cons show ?case by auto
qed

lemma map_ok_all:
  assumes "\<And>x. \<exists>y. h x = Inr y"
  shows "\<exists>ys. map_ok h xs = Inr ys"
proof (induction xs)
  case Nil
  show ?case by simp
next
  case (Cons x xs)
  from assms obtain y where "h x = Inr y" by blast
  with Cons show ?case by auto
qed

lemma where_rows_some:
  assumes "\<And>p row. w = Some p \<Longrightarrow> \<exists>t. eval g ps row p = Inr t"
  shows "\<exists>rs. (case w of None \<Rightarrow> Inr rows
               | Some p \<Rightarrow> filter_ok (\<lambda>row. eval g ps row p) rows) = Inr rs"
proof (cases w)
  case None
  then show ?thesis by simp
next
  case (Some p)
  with assms have "\<And>row. \<exists>t. eval g ps row p = Inr t" by blast
  then have "\<exists>rs. filter_ok (\<lambda>row. eval g ps row p) rows = Inr rs" by (rule filter_ok_total)
  with Some show ?thesis by simp
qed

lemma no_assertion_aux:
  "\<not> expr_asserts e \<longrightarrow> (\<forall>env. \<exists>v. eval_expr g ps env e = Inr v)"
  "\<not> asserts p \<longrightarrow> (\<forall>env. \<exists>t. eval g ps env p = Inr t)"
  "\<not> asserts (Cypher_Exists m) \<longrightarrow> (\<forall>env. \<exists>t. eval g ps env (Cypher_Exists m) = Inr t)"
proof (induction e and p and m)
  case (Cypher_Property v k)
  show ?case by simp
next
  case (Param k)
  show ?case by simp
next
  case (Cypher_Literal l)
  show ?case by simp
next
  case (NodeExpr c)
  show ?case by simp
next
  case (Cypher_size e)
  show ?case
  proof (intro impI allI)
    fix env assume "\<not> expr_asserts (Cypher_size e)"
    with Cypher_size obtain v where "eval_expr g ps env e = Inr v" by auto
    then show "\<exists>v. eval_expr g ps env (Cypher_size e) = Inr v" by (cases v) auto
  qed
next
  case (Cypher_PatternComprehension pat proj w)
  show ?case
  proof (intro impI allI)
    fix env assume na: "\<not> expr_asserts (Cypher_PatternComprehension pat proj w)"
    have "\<exists>t. eval g ps row p = Inr t" if "w = Some p" for p row
      using that na Cypher_PatternComprehension(2) [of p] by auto
    then have "\<exists>rs. (case w of None \<Rightarrow> Inr (match_rows g pat env)
               | Some p \<Rightarrow> filter_ok (\<lambda>row. eval g ps row p) (match_rows g pat env)) = Inr rs"
      by (rule where_rows_some)
    then obtain rs where rs: "(case w of None \<Rightarrow> Inr (match_rows g pat env)
               | Some p \<Rightarrow> filter_ok (\<lambda>row. eval g ps row p) (match_rows g pat env)) = Inr rs"
      by blast
    from na Cypher_PatternComprehension(1) have "\<And>row. \<exists>v. eval_expr g ps row proj = Inr v" by auto
    then have "\<exists>vs. map_ok (\<lambda>row. eval_expr g ps row proj) rs = Inr vs"
      by (rule map_ok_all)
    then obtain vs where "map_ok (\<lambda>row. eval_expr g ps row proj) rs = Inr vs" by blast
    with rs show "\<exists>v. eval_expr g ps env (Cypher_PatternComprehension pat proj w) = Inr v"
      by simp
  qed
next
  case (Cypher_eq a b)
  show ?case
  proof (intro impI allI)
    fix env assume "\<not> asserts (Cypher_eq a b)"
    with Cypher_eq obtain u v where "eval_expr g ps env a = Inr u" "eval_expr g ps env b = Inr v"
      by auto blast
    then show "\<exists>t. eval g ps env (Cypher_eq a b) = Inr t" by simp
  qed
next
  case (Cypher_not p)
  show ?case
  proof (intro impI allI)
    fix env assume "\<not> asserts (Cypher_not p)"
    with Cypher_not obtain t where "eval g ps env p = Inr t" by auto
    then show "\<exists>t'. eval g ps env (Cypher_not p) = Inr t'" by simp
  qed
next
  case (Cypher_and p q)
  show ?case
  proof (intro impI allI)
    fix env assume "\<not> asserts (Cypher_and p q)"
    with Cypher_and obtain a b where "eval g ps env p = Inr a" "eval g ps env q = Inr b"
      by auto blast
    then show "\<exists>t. eval g ps env (Cypher_and p q) = Inr t" by simp
  qed
next
  case (Cypher_or p q)
  show ?case
  proof (intro impI allI)
    fix env assume "\<not> asserts (Cypher_or p q)"
    with Cypher_or obtain a b where "eval g ps env p = Inr a" "eval g ps env q = Inr b"
      by auto blast
    then show "\<exists>t. eval g ps env (Cypher_or p q) = Inr t" by simp
  qed
next
  case (Cypher_Exists m)
  then show ?case by simp
next
  case (Cypher_single c xs p)
  show ?case
  proof (intro impI allI)
    fix env assume na: "\<not> asserts (Cypher_single c xs p)"
    with Cypher_single(1) obtain v where v: "eval_expr g ps env xs = Inr v" by auto
    from na Cypher_single(2) have "\<And>x. \<exists>t. eval g ps ((node_ref c, x) # env) p = Inr t" by auto
    then have f: "\<exists>ts. map_ok (\<lambda>x. eval g ps ((node_ref c, x) # env) p) vs = Inr ts" for vs
      by (rule map_ok_all)
    show "\<exists>t. eval g ps env (Cypher_single c xs p) = Inr t"
    proof (cases v)
      case (VList vs)
      from f [of vs] obtain ts where "map_ok (\<lambda>x. eval g ps ((node_ref c, x) # env) p) vs = Inr ts"
        by blast
      with v VList show ?thesis by simp
    qed (use v in auto)
  qed
next
  case (ValidatePredicate p msg)
  show ?case by simp
next
  case (Cypher_Match pat w)
  show ?case
  proof (intro impI allI)
    fix env assume na: "\<not> asserts (Cypher_Exists (Cypher_Match pat w))"
    have "\<exists>t. eval g ps row p = Inr t" if "w = Some p" for p row
      using that na Cypher_Match [of p] by auto
    then have "\<exists>rs. (case w of None \<Rightarrow> Inr (match_rows g pat env)
               | Some p \<Rightarrow> filter_ok (\<lambda>row. eval g ps row p) (match_rows g pat env)) = Inr rs"
      by (rule where_rows_some)
    then obtain rs where "(case w of None \<Rightarrow> Inr (match_rows g pat env)
               | Some p \<Rightarrow> filter_ok (\<lambda>row. eval g ps row p) (match_rows g pat env)) = Inr rs"
      by blast
    then show "\<exists>t. eval g ps env (Cypher_Exists (Cypher_Match pat w)) = Inr t" by simp
  qed
qed

lemma no_assertion_total: "\<not> asserts p \<Longrightarrow> \<exists>t. eval g ps row p = Inr t"
  using no_assertion_aux(2) [of p g ps] by blast

lemma no_assertion_total_opt: "\<not> asserts_opt w \<Longrightarrow> \<exists>t. eval_where g ps row w = Inr t"
  by (cases w) (auto simp: asserts_opt_def eval_where_def dest: no_assertion_total)

text \<open>
  Without assertions the order of the operands of \<open>AND\<close> and \<open>OR\<close> does not matter.
\<close>

lemma and_order_immaterial:
  assumes "\<not> asserts p" and "\<not> asserts q"
  shows "eval g ps env (Cypher_and p q) = eval g ps env (Cypher_and q p)"
proof -
  from assms obtain a b where "eval g ps env p = Inr a" "eval g ps env q = Inr b"
    using no_assertion_total by blast
  then show ?thesis by (auto simp: and3_def)
qed

lemma or_order_immaterial:
  assumes "\<not> asserts p" and "\<not> asserts q"
  shows "eval g ps env (Cypher_or p q) = eval g ps env (Cypher_or q p)"
proof -
  from assms obtain a b where "eval g ps env p = Inr a" "eval g ps env q = Inr b"
    using no_assertion_total by blast
  then show ?thesis by (auto simp: or3_def)
qed

section \<open>The ALL quantifier\<close>

text \<open>
  C1. For a non-empty inner predicate, the list predicate \<open>all\<close> compiles to the
  conjunction of \<open>EXISTS\<close> over the match with the predicate and of the negation of
  \<open>EXISTS\<close> over the match with the negated predicate; on a target with no related
  entity (the pattern binds no row) this predicate is false.
\<close>

theorem all_two_sided:
  "\<exists>q. createRelationshipSubqueryAndPredicate pat ''all'' childNode (Some p) rv e = Some q
      \<and> q = Cypher_and (Cypher_Exists (Cypher_Match pat (Some p)))
                (Cypher_not (Cypher_Exists (Cypher_Match pat (Some (Cypher_not p)))))
      \<and> (match_rows g pat env = [] \<longrightarrow> eval g ps env q = Inr (Some False))"
  by (simp add: all_form)

theorem all_two_sided_witness:
  "createRelationshipSubqueryAndPredicate fx_pattern ''all'' fx_child (Some fx_name_is) [] False =
     Some (Cypher_and (Cypher_Exists (Cypher_Match fx_pattern (Some fx_name_is)))
             (Cypher_not (Cypher_Exists (Cypher_Match fx_pattern (Some (Cypher_not fx_name_is))))))
   \<and> match_rows fx_graph fx_pattern [(Ref 0, VNode fx_silence)] = []
   \<and> eval fx_graph fx_keanu [(Ref 0, VNode fx_silence)]
        (Cypher_and (Cypher_Exists (Cypher_Match fx_pattern (Some fx_name_is)))
             (Cypher_not (Cypher_Exists (Cypher_Match fx_pattern (Some (Cypher_not fx_name_is))))))
      = Inr (Some False)"
  using all_two_sided [where pat = fx_pattern and childNode = fx_child and p = fx_name_is
      and rv = "[]" and e = False and g = fx_graph and env = "[(Ref 0, VNode fx_silence)]"
      and ps = fx_keanu] fx_silence_rows
  by auto

text \<open>
  C2, as the spec states it, fails: on "Matrix", where one actor matches the inner
  predicate (the name is Keanu) and the other does not, the predicate compiled for
  \<open>all\<close> and the predicate compiled for \<open>none\<close> are both false.
\<close>

theorem all_none_counterexample:
  "map_option (eval fx_graph fx_keanu [(Ref 0, VNode fx_matrix)])
     (createRelationshipSubqueryAndPredicate fx_pattern ''all'' fx_child (Some fx_name_is) [] False)
     = Some (Inr (Some False))
   \<and> map_option (eval fx_graph fx_keanu [(Ref 0, VNode fx_matrix)])
     (createRelationshipSubqueryAndPredicate fx_pattern ''none'' fx_child (Some fx_name_is) [] False)
     = Some (Inr (Some False))"
  by (simp add: all_form none_form fx_defs sem_defs and3_def)

text \<open>
  C2 (as amended). With a non-empty inner predicate that is a filter (no assertion
  occurs in it), \<open>all\<close> is true on a target iff the inner predicate is true of some
  related entity and false of none, and \<open>none\<close> is true iff the inner predicate is true
  of no related entity; a related entity on which the inner predicate is null (a
  comparison with a property that is not stored) counts for neither. So the two are
  never both true, and they are both false exactly on the targets that have a related
  entity of which the inner predicate is true and one of which it is false; on every
  other target exactly one of the two is true.
\<close>

theorem all_none:
  assumes inner: "\<not> asserts p"
  shows "\<exists>qa qn. createRelationshipSubqueryAndPredicate pat ''all'' childNode (Some p) rv e = Some qa
      \<and> createRelationshipSubqueryAndPredicate pat ''none'' childNode (Some p) rv e = Some qn
      \<and> eval g ps env qa = Inr (Some ((\<exists>row \<in> set (match_rows g pat env). holds g ps p row)
                                     \<and> (\<forall>row \<in> set (match_rows g pat env). \<not> fails g ps p row)))
      \<and> eval g ps env qn = Inr (Some (\<forall>row \<in> set (match_rows g pat env). \<not> holds g ps p row))
      \<and> \<not> (eval g ps env qa = Inr (Some True) \<and> eval g ps env qn = Inr (Some True))
      \<and> ((eval g ps env qa = Inr (Some False) \<and> eval g ps env qn = Inr (Some False))
           = ((\<exists>row \<in> set (match_rows g pat env). holds g ps p row)
              \<and> (\<exists>row \<in> set (match_rows g pat env). fails g ps p row)))"
proof -
  let ?rows = "match_rows g pat env"
  have tot: "\<forall>row \<in> set ?rows. \<exists>t. eval g ps row p = Inr t"
    using inner by (simp add: no_assertion_total)
  have ex: "eval g ps env (Cypher_Exists (Cypher_Match pat (Some p)))
            = Inr (Some (\<exists>row \<in> set ?rows. holds g ps p row))"
    using tot by (rule eval_exists_total)
  have nex: "eval g ps env (Cypher_Exists (Cypher_Match pat (Some (Cypher_not p))))
             = Inr (Some (\<exists>row \<in> set ?rows. fails g ps p row))"
    using tot by (rule eval_exists_negated)
  have a: "eval g ps env (Cypher_and (Cypher_Exists (Cypher_Match pat (Some p)))
                (Cypher_not (Cypher_Exists (Cypher_Match pat (Some (Cypher_not p))))))
        = Inr (Some ((\<exists>row \<in> set ?rows. holds g ps p row) \<and> (\<forall>row \<in> set ?rows. \<not> fails g ps p row)))"
    unfolding eval.simps(3) eval.simps(2) ex nex by (auto simp: and3_def)
  have n: "eval g ps env (Cypher_not (Cypher_Exists (Cypher_Match pat (Some p))))
           = Inr (Some (\<forall>row \<in> set ?rows. \<not> holds g ps p row))"
    unfolding eval.simps(2) ex by simp
  show ?thesis
    unfolding all_form none_form[OF disjI2[OF refl]] using a n by auto
qed

theorem all_none_witness:
  "map_option (eval fx_graph fx_keanu [(Ref 0, VNode fx_silence)])
     (createRelationshipSubqueryAndPredicate fx_pattern ''all'' fx_child (Some fx_name_is) [] False)
     = Some (Inr (Some False))
   \<and> map_option (eval fx_graph fx_keanu [(Ref 0, VNode fx_silence)])
     (createRelationshipSubqueryAndPredicate fx_pattern ''none'' fx_child (Some fx_name_is) [] False)
     = Some (Inr (Some True))
   \<and> map_option (eval fx_nameless fx_keanu [(Ref 0, VNode fx_matrix)])
     (createRelationshipSubqueryAndPredicate fx_pattern ''all'' fx_child (Some fx_name_is) [] False)
     = Some (Inr (Some True))
   \<and> map_option (eval fx_nameless fx_keanu [(Ref 0, VNode fx_matrix)])
     (createRelationshipSubqueryAndPredicate fx_pattern ''none'' fx_child (Some fx_name_is) [] False)
     = Some (Inr (Some False))"
proof -
  have h: "\<not> asserts fx_name_is" by (simp add: fx_name_is_def)
  have r: "holds fx_nameless fx_keanu fx_name_is (fx_nameless_rows ! 0)"
          "\<not> fails fx_nameless fx_keanu fx_name_is (fx_nameless_rows ! 0)"
          "\<not> holds fx_nameless fx_keanu fx_name_is (fx_nameless_rows ! 1)"
          "\<not> fails fx_nameless fx_keanu fx_name_is (fx_nameless_rows ! 1)"
    by (simp_all add: fx_nameless_rows_def holds_def fails_def fx_name_is_def fx_keanu_def
          fx_keanu_actor_def prop_value_def var_value_def)
  from all_none [OF h, where pat = fx_pattern and childNode = fx_child and rv = "[]" and e = False
         and g = fx_graph and ps = fx_keanu and env = "[(Ref 0, VNode fx_silence)]"]
       all_none [OF h, where pat = fx_pattern and childNode = fx_child and rv = "[]" and e = False
         and g = fx_nameless and ps = fx_keanu and env = "[(Ref 0, VNode fx_matrix)]"]
       r
  show ?thesis
    by (auto simp: fx_silence_rows fx_nameless_match fx_nameless_rows_def)
qed

section \<open>The SINGLE quantifier\<close>

lemma decided_eval: "decided g ps p row \<Longrightarrow> eval g ps row p = Inr (Some (holds g ps p row))"
  by (auto simp: decided_def holds_def fails_def)

lemma single3_decided: "single3 (map (\<lambda>x. Some (f x)) xs) = Some (length (filter f xs) = 1)"
proof -
  have "filter (\<lambda>t. t = Some True) (map (\<lambda>x. Some (f x)) xs) = map (\<lambda>x. Some (f x)) (filter f xs)"
    by (induction xs) auto
  then have "length (filter (\<lambda>t. t = Some True) (map (\<lambda>x. Some (f x)) xs)) = length (filter f xs)"
    by simp
  then show ?thesis by (auto simp: single3_def)
qed

lemma map_ok_map: "map_ok h (map f xs) = map_ok (\<lambda>x. h (f x)) xs"
  by (induction xs) (auto split: sum.splits)

text \<open>
  The \<open>size\<close> form of \<open>single\<close> counts the rows on which the inner predicate is true.
  The \<open>single()\<close> form does so too when the inner predicate is decided on every row and
  evaluates on a row as it does with the child node alone bound.
\<close>

lemma single_counts_matching_rows:
  assumes tot: "\<forall>row \<in> set (match_rows g pat env). \<exists>t. eval g ps row p = Inr t"
      and ind: "e \<or> (\<forall>row \<in> set (match_rows g pat env). decided g ps p row
                  \<and> eval g ps ((node_ref c, var_value row (node_ref c)) # env) p = eval g ps row p)"
  shows "\<exists>q. createRelationshipSubqueryAndPredicate pat ''single'' c (Some p) rv e = Some q
      \<and> q = (if e then Cypher_eq (Cypher_size (Cypher_PatternComprehension pat (Cypher_Literal (LInt 1)) (Some p)))
                     (Cypher_Literal (LInt 1))
         else Cypher_single c (Cypher_PatternComprehension pat (NodeExpr c) None) p)
      \<and> eval g ps env q = Inr (Some (length (filter (holds g ps p) (match_rows g pat env)) = 1))"
proof (cases e)
  case True
  have "eval g ps env (Cypher_eq (Cypher_size (Cypher_PatternComprehension pat (Cypher_Literal (LInt 1)) (Some p)))
                     (Cypher_Literal (LInt 1)))
        = Inr (Some (length (filter (holds g ps p) (match_rows g pat env)) = 1))"
    using tot by (simp add: where_rows_total map_ok_total)
  with True show ?thesis by (simp add: single_form)
next
  case False
  let ?rows = "match_rows g pat env"
  let ?val = "\<lambda>row. var_value row (node_ref c)"
  from False ind have same: "\<And>row. row \<in> set ?rows \<Longrightarrow>
      eval g ps ((node_ref c, ?val row) # env) p = Inr (Some (holds g ps p row))"
    by (simp add: decided_eval)
  have "map_ok (\<lambda>v. eval g ps ((node_ref c, v) # env) p) (map ?val ?rows)
        = Inr (map (\<lambda>row. Some (holds g ps p row)) ?rows)"
    unfolding map_ok_map using same by (rule map_ok_values)
  then have "eval g ps env (Cypher_single c (Cypher_PatternComprehension pat (NodeExpr c) None) p)
      = Inr (Some (length (filter (holds g ps p) ?rows) = 1))"
    by (simp add: map_ok_total single3_decided)
  with False show ?thesis by (simp add: single_form)
qed

lemma agree_mono: "agree S env env' \<Longrightarrow> T \<subseteq> S \<Longrightarrow> agree T env env'"
  by (auto simp: agree_def)

lemma agree_cons: "agree S env env' \<Longrightarrow> agree S ((v, x) # env) ((v, x) # env')"
  by (auto simp: agree_def)

lemma agree_var_value: "agree S env env' \<Longrightarrow> v \<in> S \<Longrightarrow> var_value env v = var_value env' v"
  by (auto simp: agree_def var_value_def)

lemma bind_node_agree:
  assumes "agree S env env'" and "node_ref c \<in> S"
  shows "rel_option (agree S) (bind_node g opts c i env) (bind_node g opts c i env')"
proof -
  from assms have "map_of env (node_ref c) = map_of env' (node_ref c)" by (simp add: agree_def)
  with assms(1) show ?thesis
    by (auto simp: bind_node_def agree_cons split: option.splits)
qed

lemma match_row_agree:
  assumes "agree S env env'" and "pattern_refs pat \<subseteq> S"
  shows "rel_option (agree S) (match_row g pat env e) (match_row g pat env' e)"
proof -
  let ?r = "pat_relationship pat"
  from assms(2) have s: "node_ref (rel_source ?r) \<in> S" and t: "node_ref (rel_target ?r) \<in> S"
    by (auto simp: pattern_refs_def)
  have 1: "rel_option (agree S) (bind_node g (pat_source pat) (rel_source ?r) (e_src e) env)
                                (bind_node g (pat_source pat) (rel_source ?r) (e_src e) env')"
    using assms(1) s by (rule bind_node_agree)
  show ?thesis
  proof (cases "bind_node g (pat_source pat) (rel_source ?r) (e_src e) env")
    case None
    with 1 show ?thesis by (cases "bind_node g (pat_source pat) (rel_source ?r) (e_src e) env'")
        (simp_all add: match_row_def Let_def)
  next
    case (Some env1)
    with 1 obtain env1' where b: "bind_node g (pat_source pat) (rel_source ?r) (e_src e) env' = Some env1'"
      and a1: "agree S env1 env1'"
      by (cases "bind_node g (pat_source pat) (rel_source ?r) (e_src e) env'") auto
    have 2: "rel_option (agree S) (bind_node g (pat_target pat) (rel_target ?r) (e_tgt e) env1)
                                (bind_node g (pat_target pat) (rel_target ?r) (e_tgt e) env1')"
      using a1 t by (rule bind_node_agree)
    then show ?thesis using Some b
      by (cases "bind_node g (pat_target pat) (rel_target ?r) (e_tgt e) env1";
          cases "bind_node g (pat_target pat) (rel_target ?r) (e_tgt e) env1'")
         (auto simp: match_row_def Let_def agree_cons)
  qed
qed

lemma map_filter_rel:
  assumes "\<And>x. rel_option R (f x) (f' x)"
  shows "list_all2 R (List.map_filter f xs) (List.map_filter f' xs)"
proof (induction xs)
  case Nil
  show ?case by simp
next
  case (Cons x xs)
  from assms [of x] Cons show ?case
    by (cases "f x"; cases "f' x") auto
qed

lemma match_rows_agree:
  assumes "agree S env env'" and "pattern_refs pat \<subseteq> S"
  shows "list_all2 (agree S) (match_rows g pat env) (match_rows g pat env')"
  unfolding match_rows_def using match_row_agree [OF assms] by (rule map_filter_rel)

lemma filter_ok_rel:
  assumes "list_all2 R xs ys" and "\<And>x y. R x y \<Longrightarrow> h x = h' y"
  shows "rel_sum (=) (list_all2 R) (filter_ok h xs) (filter_ok h' ys)"
  using assms(1)
proof (induction rule: list_all2_induct)
  case Nil
  show ?case by simp
next
  case (Cons x xs y ys)
  from Cons(1) have "h x = h' y" by (rule assms(2))
  with Cons show ?case
    by (cases "h' y"; cases "filter_ok h xs"; cases "filter_ok h' ys") auto
qed

lemma map_ok_rel:
  assumes "list_all2 R xs ys" and "\<And>x y. R x y \<Longrightarrow> h x = h' y"
  shows "map_ok h xs = map_ok h' ys"
  using assms(1)
proof (induction rule: list_all2_induct)
  case Nil
  show ?case by simp
next
  case (Cons x xs y ys)
  from Cons(1) have "h x = h' y" by (rule assms(2))
  with Cons show ?case by (cases "h' y") simp_all
qed

lemma where_rows_agree:
  assumes rows: "list_all2 (agree S) rows rows'"
      and ih: "\<And>p row row'. w = Some p \<Longrightarrow> agree S row row' \<Longrightarrow> eval g ps row p = eval g ps row' p"
  shows "rel_sum (=) (list_all2 (agree S))
           (case w of None \<Rightarrow> Inr rows | Some p \<Rightarrow> filter_ok (\<lambda>row. eval g ps row p) rows)
           (case w of None \<Rightarrow> Inr rows' | Some p \<Rightarrow> filter_ok (\<lambda>row. eval g ps row p) rows')"
proof (cases w)
  case None
  with rows show ?thesis by simp
next
  case (Some p)
  then show ?thesis using filter_ok_rel [OF rows, of "\<lambda>row. eval g ps row p" "\<lambda>row. eval g ps row p"] ih
    by simp
qed

lemma eval_agree_aux:
  "(\<forall>env env'. agree (expr_refs e) env env' \<longrightarrow> eval_expr g ps env e = eval_expr g ps env' e)"
  "(\<forall>env env'. agree (pred_refs p) env env' \<longrightarrow> eval g ps env p = eval g ps env' p)"
  "(\<forall>env env'. agree (pred_refs (Cypher_Exists m)) env env' \<longrightarrow>
       eval g ps env (Cypher_Exists m) = eval g ps env' (Cypher_Exists m))"
proof (induction e and p and m)
  case (Cypher_Property v k)
  show ?case by (auto dest: agree_var_value)
next
  case (Param k)
  show ?case by simp
next
  case (Cypher_Literal l)
  show ?case by simp
next
  case (NodeExpr c)
  show ?case by (auto dest: agree_var_value)
next
  case (Cypher_size e)
  then show ?case by simp
next
  case (Cypher_PatternComprehension pat proj w)
  show ?case
  proof (intro allI impI)
    fix env env'
    let ?S = "expr_refs (Cypher_PatternComprehension pat proj w)"
    assume a: "agree ?S env env'"
    have rows: "list_all2 (agree ?S) (match_rows g pat env) (match_rows g pat env')"
      using a by (rule match_rows_agree) auto
    have w: "rel_sum (=) (list_all2 (agree ?S))
           (case w of None \<Rightarrow> Inr (match_rows g pat env)
            | Some p \<Rightarrow> filter_ok (\<lambda>row. eval g ps row p) (match_rows g pat env))
           (case w of None \<Rightarrow> Inr (match_rows g pat env')
            | Some p \<Rightarrow> filter_ok (\<lambda>row. eval g ps row p) (match_rows g pat env'))"
    proof (rule where_rows_agree [OF rows])
      fix p row row' assume "w = Some p" and r: "agree ?S row row'"
      then have "p \<in> set_option w" by simp
      moreover from r \<open>w = Some p\<close> have "agree (pred_refs p) row row'"
        by (auto elim: agree_mono)
      ultimately show "eval g ps row p = eval g ps row' p"
        using Cypher_PatternComprehension(2) by blast
    qed
    have proj: "eval_expr g ps row proj = eval_expr g ps row' proj" if "agree ?S row row'" for row row'
    proof -
      from that have "agree (expr_refs proj) row row'" by (auto elim: agree_mono)
      then show ?thesis using Cypher_PatternComprehension(1) by blast
    qed
    from w show "eval_expr g ps env (Cypher_PatternComprehension pat proj w) =
                 eval_expr g ps env' (Cypher_PatternComprehension pat proj w)"
      by (auto elim!: rel_sum.cases simp: map_ok_rel [OF _ proj])
  qed
next
  case (Cypher_eq a b)
  show ?case
  proof (intro allI impI)
    fix env env' assume "agree (pred_refs (Cypher_eq a b)) env env'"
    then have "agree (expr_refs a) env env'" "agree (expr_refs b) env env'"
      by (auto elim: agree_mono)
    with Cypher_eq have "eval_expr g ps env a = eval_expr g ps env' a"
      and "eval_expr g ps env b = eval_expr g ps env' b" by blast+
    then show "eval g ps env (Cypher_eq a b) = eval g ps env' (Cypher_eq a b)"
      by (simp only: eval.simps)
  qed
next
  case (Cypher_not p)
  then show ?case by simp
next
  case (Cypher_and p q)
  show ?case
  proof (intro allI impI)
    fix env env' assume "agree (pred_refs (Cypher_and p q)) env env'"
    then have "agree (pred_refs p) env env'" "agree (pred_refs q) env env'"
      by (auto elim: agree_mono)
    with Cypher_and have "eval g ps env p = eval g ps env' p"
      and "eval g ps env q = eval g ps env' q" by blast+
    then show "eval g ps env (Cypher_and p q) = eval g ps env' (Cypher_and p q)"
      by (simp only: eval.simps)
  qed
next
  case (Cypher_or p q)
  show ?case
  proof (intro allI impI)
    fix env env' assume "agree (pred_refs (Cypher_or p q)) env env'"
    then have "agree (pred_refs p) env env'" "agree (pred_refs q) env env'"
      by (auto elim: agree_mono)
    with Cypher_or have "eval g ps env p = eval g ps env' p"
      and "eval g ps env q = eval g ps env' q" by blast+
    then show "eval g ps env (Cypher_or p q) = eval g ps env' (Cypher_or p q)"
      by (simp only: eval.simps)
  qed
next
  case (Cypher_Exists m)
  then show ?case by simp
next
  case (Cypher_single c xs p)
  show ?case
  proof (intro allI impI)
    fix env env' assume a: "agree (pred_refs (Cypher_single c xs p)) env env'"
    then have "agree (expr_refs xs) env env'" and ap: "agree (pred_refs p) env env'"
      by (auto elim: agree_mono)
    with Cypher_single have xs: "eval_expr g ps env xs = eval_expr g ps env' xs" by blast
    have "eval g ps ((node_ref c, v) # env) p = eval g ps ((node_ref c, v) # env') p" for v
      using Cypher_single(2) agree_cons [OF ap] by blast
    then have "(\<lambda>v. eval g ps ((node_ref c, v) # env) p) = (\<lambda>v. eval g ps ((node_ref c, v) # env') p)"
      by (rule ext)
    with xs show "eval g ps env (Cypher_single c xs p) = eval g ps env' (Cypher_single c xs p)"
      by (simp only: eval.simps)
  qed
next
  case (ValidatePredicate p msg)
  then show ?case by simp
next
  case (Cypher_Match pat w)
  show ?case
  proof (intro allI impI)
    fix env env'
    let ?S = "pred_refs (Cypher_Exists (Cypher_Match pat w))"
    assume a: "agree ?S env env'"
    have rows: "list_all2 (agree ?S) (match_rows g pat env) (match_rows g pat env')"
      using a by (rule match_rows_agree) auto
    have w: "rel_sum (=) (list_all2 (agree ?S))
           (case w of None \<Rightarrow> Inr (match_rows g pat env)
            | Some p \<Rightarrow> filter_ok (\<lambda>row. eval g ps row p) (match_rows g pat env))
           (case w of None \<Rightarrow> Inr (match_rows g pat env')
            | Some p \<Rightarrow> filter_ok (\<lambda>row. eval g ps row p) (match_rows g pat env'))"
    proof (rule where_rows_agree [OF rows])
      fix p row row' assume "w = Some p" and r: "agree ?S row row'"
      then have "p \<in> set_option w" by simp
      moreover from r \<open>w = Some p\<close> have "agree (pred_refs p) row row'"
        by (auto elim: agree_mono)
      ultimately show "eval g ps row p = eval g ps row' p"
        using Cypher_Match by blast
    qed
    then show "eval g ps env (Cypher_Exists (Cypher_Match pat w)) =
               eval g ps env' (Cypher_Exists (Cypher_Match pat w))"
      by (auto elim!: rel_sum.cases dest: list_all2_lengthD)
  qed
qed

lemma eval_agree: "agree (pred_refs p) env env' \<Longrightarrow> eval g ps env p = eval g ps env' p"
  using eval_agree_aux(2) by blast

lemma bind_node_Some:
  assumes "bind_node g opts n i env = Some env1"
  shows "map_of env1 (node_ref n) \<noteq> None"
    and "v \<noteq> node_ref n \<or> map_of env v \<noteq> None \<Longrightarrow> map_of env1 v = map_of env v"
  using assms by (auto simp: bind_node_def split: option.splits if_splits)

lemma match_row_Some:
  assumes "match_row g pat env e = Some row"
  shows "\<exists>env2. row = (rel_ref (pat_relationship pat), VEdge e) # env2
           \<and> map_of env2 (node_ref (rel_source (pat_relationship pat))) \<noteq> None
           \<and> map_of env2 (node_ref (rel_target (pat_relationship pat))) \<noteq> None
           \<and> (\<forall>v. (v \<noteq> node_ref (rel_source (pat_relationship pat))
                    \<and> v \<noteq> node_ref (rel_target (pat_relationship pat)))
                   \<or> map_of env v \<noteq> None \<longrightarrow> map_of env2 v = map_of env v)"
proof -
  let ?r = "pat_relationship pat"
  from assms obtain env1 env2 where
    b1: "bind_node g (pat_source pat) (rel_source ?r) (e_src e) env = Some env1"
    and b2: "bind_node g (pat_target pat) (rel_target ?r) (e_tgt e) env1 = Some env2"
    and row: "row = (rel_ref ?r, VEdge e) # env2"
    by (auto simp: match_row_def Let_def split: if_splits option.splits)
  have s1: "map_of env1 (node_ref (rel_source ?r)) \<noteq> None" using b1 by (rule bind_node_Some)
  have t2: "map_of env2 (node_ref (rel_target ?r)) \<noteq> None" using b2 by (rule bind_node_Some)
  have s2: "map_of env2 (node_ref (rel_source ?r)) \<noteq> None"
    using bind_node_Some(2) [OF b2, of "node_ref (rel_source ?r)"] s1 by auto
  have keep: "map_of env2 v = map_of env v"
    if "(v \<noteq> node_ref (rel_source ?r) \<and> v \<noteq> node_ref (rel_target ?r)) \<or> map_of env v \<noteq> None" for v
  proof -
    from that have 1: "map_of env1 v = map_of env v"
      by (intro bind_node_Some(2) [OF b1]) auto
    with that have "map_of env2 v = map_of env1 v"
      by (intro bind_node_Some(2) [OF b2]) auto
    with 1 show ?thesis by simp
  qed
  from row s2 t2 keep show ?thesis by blast
qed

lemma in_match_rows: "row \<in> set (match_rows g pat env) \<Longrightarrow> \<exists>e. match_row g pat env e = Some row"
  by (auto simp: match_rows_def List.map_filter_def)

lemma rows_independent:
  assumes rel: "rel_ref (pat_relationship pat) \<notin> pred_refs p"
      and child: "node_ref c = node_ref (rel_source (pat_relationship pat))
                  \<or> node_ref c = node_ref (rel_target (pat_relationship pat))"
      and bound: "\<forall>v \<in> {node_ref (rel_source (pat_relationship pat)),
                        node_ref (rel_target (pat_relationship pat))}.
                    v \<noteq> node_ref c \<longrightarrow> map_of env v \<noteq> None"
      and row: "row \<in> set (match_rows g pat env)"
  shows "eval g ps ((node_ref c, var_value row (node_ref c)) # env) p = eval g ps row p"
proof (rule eval_agree)
  let ?r = "pat_relationship pat"
  from row obtain e where "match_row g pat env e = Some row" using in_match_rows by blast
  then obtain env2 where r: "row = (rel_ref ?r, VEdge e) # env2"
    and s: "map_of env2 (node_ref (rel_source ?r)) \<noteq> None"
    and t: "map_of env2 (node_ref (rel_target ?r)) \<noteq> None"
    and keep: "\<And>v. (v \<noteq> node_ref (rel_source ?r) \<and> v \<noteq> node_ref (rel_target ?r))
                   \<or> map_of env v \<noteq> None \<Longrightarrow> map_of env2 v = map_of env v"
    using match_row_Some by blast
  show "agree (pred_refs p) ((node_ref c, var_value row (node_ref c)) # env) row"
    unfolding agree_def
  proof
    fix v assume v: "v \<in> pred_refs p"
    with rel have nr: "v \<noteq> rel_ref ?r" by auto
    show "map_of ((node_ref c, var_value row (node_ref c)) # env) v = map_of row v"
    proof (cases "v = node_ref c")
      case True
      from child s t have "map_of env2 (node_ref c) \<noteq> None" by auto
      then obtain x where x: "map_of env2 (node_ref c) = Some x" by auto
      with nr True have "map_of row (node_ref c) = Some x" by (simp add: r)
      then show ?thesis using True by (simp add: var_value_def)
    next
      case False
      with bound have "(v \<noteq> node_ref (rel_source ?r) \<and> v \<noteq> node_ref (rel_target ?r))
                   \<or> map_of env v \<noteq> None" by auto
      then have "map_of env2 v = map_of env v" by (rule keep)
      with False nr show ?thesis by (simp add: r)
    qed
  qed
qed

text \<open>
  C3, as the spec states it, fails: where Keanu is the only actor of "Matrix" and plays
  two roles, exactly one related entity matches the inner predicate (the name is
  Keanu), and both forms of \<open>single\<close> are false, because the one actor is reached
  through two relationships.
\<close>

theorem single_counterexample:
  "remdups (map (\<lambda>row. var_value row (Ref 1))
              (match_rows fx_two_roles fx_pattern [(Ref 0, VNode fx_matrix)]))
     = [VNode fx_keanu_actor]
   \<and> eval fx_two_roles fx_keanu [(Ref 1, VNode fx_keanu_actor), (Ref 0, VNode fx_matrix)] fx_name_is
     = Inr (Some True)
   \<and> map_option (eval fx_two_roles fx_keanu [(Ref 0, VNode fx_matrix)])
       (createRelationshipSubqueryAndPredicate fx_pattern ''single'' fx_child (Some fx_name_is) [] False)
     = Some (Inr (Some False))
   \<and> map_option (eval fx_two_roles fx_keanu [(Ref 0, VNode fx_matrix)])
       (createRelationshipSubqueryAndPredicate fx_pattern ''single'' fx_child (Some fx_name_is) [] True)
     = Some (Inr (Some False))"
  by (simp add: single_form fx_two_roles_match)
     (simp add: fx_two_roles_rows_def fx_name_is_def fx_keanu_def fx_keanu_actor_def fx_child_def
        prop_value_def var_value_def single3_def)

text \<open>
  C3 (as amended). For a non-empty inner predicate, the list predicate \<open>single\<close>
  compiles to \<open>size(pattern comprehension with the predicate) = 1\<close> when the caller sets
  the flag \<open>edgePredicate\<close>, and to \<open>single()\<close> over the related nodes otherwise; the
  form follows the flag, not the predicate. On the match pattern of a relationship
  field, from a bound parent, and with an inner predicate that is a filter (no
  assertion occurs in it), the compiled predicate is true iff the inner predicate is
  true on exactly one related row. There is one row for each relationship, so an
  entity that is related through two relationships counts twice. For the \<open>single()\<close>
  form this holds when the inner predicate does not mention the relationship variable
  and is not null on any related row.
\<close>

theorem single_exactly_one:
  assumes pat: "pat = matchPatternOf relationField parentNode childNode rel"
      and bound: "map_of env (node_ref parentNode) \<noteq> None"
      and inner: "\<not> asserts p"
      and flag: "edgePredicate \<or> (rel \<notin> pred_refs p
                   \<and> (\<forall>row \<in> set (match_rows g pat env). decided g ps p row))"
  shows "\<exists>q. createRelationshipSubqueryAndPredicate pat ''single'' childNode (Some p) rv edgePredicate
                = Some q
      \<and> q = (if edgePredicate
             then Cypher_eq (Cypher_size (Cypher_PatternComprehension pat (Cypher_Literal (LInt 1))
                                            (Some p)))
                    (Cypher_Literal (LInt 1))
             else Cypher_single childNode
                    (Cypher_PatternComprehension pat (NodeExpr childNode) None) p)
      \<and> eval g ps env q = Inr (Some (length (filter (holds g ps p) (match_rows g pat env)) = 1))"
proof -
  have tot: "\<forall>row \<in> set (match_rows g pat env). \<exists>t. eval g ps row p = Inr t"
    using inner by (simp add: no_assertion_total)
  have ind: "edgePredicate \<or> (\<forall>row \<in> set (match_rows g pat env). decided g ps p row
                  \<and> eval g ps ((node_ref childNode, var_value row (node_ref childNode)) # env) p
                    = eval g ps row p)"
  proof (cases edgePredicate)
    case True
    then show ?thesis by simp
  next
    case False
    with flag have rel: "rel_ref (pat_relationship pat) \<notin> pred_refs p"
      and dec: "\<forall>row \<in> set (match_rows g pat env). decided g ps p row"
      by (simp_all add: pat matchPatternOf_def)
    have child: "node_ref childNode = node_ref (rel_source (pat_relationship pat))
                  \<or> node_ref childNode = node_ref (rel_target (pat_relationship pat))"
      by (simp add: pat matchPatternOf_def)
    have b: "\<forall>v \<in> {node_ref (rel_source (pat_relationship pat)),
                        node_ref (rel_target (pat_relationship pat))}.
                    v \<noteq> node_ref childNode \<longrightarrow> map_of env v \<noteq> None"
      using bound by (simp add: pat matchPatternOf_def)
    show ?thesis using rows_independent [OF rel child b] dec by blast
  qed
  from tot ind show ?thesis by (rule single_counts_matching_rows)
qed

theorem single_exactly_one_witness:
  "map_option (eval fx_graph fx_neo [(Ref 0, VNode fx_matrix)])
     (createRelationshipSubqueryAndPredicate fx_pattern ''single'' fx_child (Some fx_role_is) [] True)
     = Some (Inr (Some True))
   \<and> createRelationshipSubqueryAndPredicate fx_pattern ''single'' fx_child (Some fx_role_is) [] True
     = Some (Cypher_eq (Cypher_size (Cypher_PatternComprehension fx_pattern (Cypher_Literal (LInt 1))
                          (Some fx_role_is))) (Cypher_Literal (LInt 1)))
   \<and> map_option (eval fx_graph fx_keanu [(Ref 0, VNode fx_matrix)])
     (createRelationshipSubqueryAndPredicate fx_pattern ''single'' fx_child (Some fx_name_is) [] False)
     = Some (Inr (Some True))
   \<and> createRelationshipSubqueryAndPredicate fx_pattern ''single'' fx_child (Some fx_name_is) [] False
     = Some (Cypher_single fx_child (Cypher_PatternComprehension fx_pattern (NodeExpr fx_child) None)
               fx_name_is)"
proof -
  have bound: "map_of [(Ref 0, VNode fx_matrix)] (node_ref fx_parent) \<noteq> None"
    by (simp add: fx_parent_def)
  have d1: "\<not> asserts fx_role_is" by (simp add: fx_role_is_def)
  have c1: "length (filter (holds fx_graph fx_neo fx_role_is)
               (match_rows fx_graph fx_pattern [(Ref 0, VNode fx_matrix)])) = 1"
    by (simp add: fx_matrix_rows) (simp add: fx_defs sem_defs)
  have d2: "\<not> asserts fx_name_is" by (simp add: fx_name_is_def)
  have f1: "True \<or> (Ref 2 \<notin> pred_refs fx_role_is
              \<and> (\<forall>row \<in> set (match_rows fx_graph fx_pattern [(Ref 0, VNode fx_matrix)]).
                    decided fx_graph fx_neo fx_role_is row))" by simp
  have f2: "False \<or> (Ref 2 \<notin> pred_refs fx_name_is
              \<and> (\<forall>row \<in> set (match_rows fx_graph fx_pattern [(Ref 0, VNode fx_matrix)]).
                    decided fx_graph fx_keanu fx_name_is row))"
    by (simp add: fx_matrix_rows) (simp add: fx_defs sem_defs)
  have c2: "length (filter (holds fx_graph fx_keanu fx_name_is)
               (match_rows fx_graph fx_pattern [(Ref 0, VNode fx_matrix)])) = 1"
    by (simp add: fx_matrix_rows) (simp add: fx_defs sem_defs)
  from single_exactly_one [OF fx_pattern_def bound d1 f1, where rv = "[]"]
       single_exactly_one [OF fx_pattern_def bound d2 f2, where rv = "[]"] c1 c2
  show ?thesis by auto
qed

section \<open>Null filters and to-one fields\<close>

text \<open>
  C8. A relationship filter whose value is the null literal compiles to an existence
  check of the relationship pattern alone: without \<open>isNot\<close> it is the negation of
  \<open>EXISTS\<close> of the match pattern, with \<open>isNot\<close> it is \<open>EXISTS\<close> of the same pattern; the
  match has no \<open>WHERE\<close>, and no inner predicate is compiled (the result does not depend
  on \<open>getListPredicate\<close> or \<open>createWherePredicate\<close>).
\<close>

theorem null_filter_existence_check:
  assumes "find (\<lambda>n. nd_name n = tm_name (rf_typeMeta relationField)) (ctx_nodes ctx) = Some refNode"
  shows "createRelationshipOperation labelsOf getListPredicate createWherePredicate fresh
           relationField ctx parentNode operator None isNot =
         Inr \<lparr> op_predicate =
                 Some (let exists = Cypher_Exists (Cypher_Match
                             (matchPatternOf relationField parentNode
                                \<lparr> node_ref = Ref fresh, node_labels = labelsOf refNode ctx \<rparr>
                                (Ref (Suc fresh))) None)
                       in if isNot then exists else Cypher_not exists),
               op_preComputedSubquery = None \<rparr>"
  using assms by (simp add: createRelationshipOperation_def Let_def)

theorem null_filter_existence_check_witness:
  "createRelationshipOperation getLabels fx_getListPredicate fx_createWherePredicate 1
       fx_director fx_context fx_parent None None False =
     Inr \<lparr> op_predicate = Some (Cypher_not (Cypher_Exists (Cypher_Match
             (matchPatternOf fx_director fx_parent
                \<lparr> node_ref = Ref 1, node_labels = [''Person''] \<rparr> (Ref 2)) None))),
           op_preComputedSubquery = None \<rparr>
   \<and> createRelationshipOperation getLabels fx_getListPredicate fx_createWherePredicate 1
       fx_director fx_context fx_parent None None True =
     Inr \<lparr> op_predicate = Some (Cypher_Exists (Cypher_Match
             (matchPatternOf fx_director fx_parent
                \<lparr> node_ref = Ref 1, node_labels = [''Person''] \<rparr> (Ref 2)) None)),
           op_preComputedSubquery = None \<rparr>"
  using null_filter_existence_check [OF fx_find_person, where labelsOf = getLabels
          and getListPredicate = fx_getListPredicate
          and createWherePredicate = fx_createWherePredicate and fresh = 1
          and parentNode = fx_parent and operator = None and isNot = False]
        null_filter_existence_check [OF fx_find_person, where labelsOf = getLabels
          and getListPredicate = fx_getListPredicate
          and createWherePredicate = fx_createWherePredicate and fresh = 1
          and parentNode = fx_parent and operator = None and isNot = True]
  by (simp add: getLabels_def Let_def numeral_2_eq_2)

text \<open>
  C10. When \<open>getListPredicate\<close> gives \<open>any\<close> for the operator and the relationship
  field is not a list, the inner predicate is compiled with the list predicate
  \<open>single\<close>, and the filter is the \<open>single()\<close> cardinality check over the related nodes,
  not an \<open>EXISTS\<close>.
\<close>

theorem to_one_downgraded_to_single:
  assumes found: "find (\<lambda>n. nd_name n = tm_name (rf_typeMeta relationField)) (ctx_nodes ctx) = Some refNode"
      and any: "getListPredicate operator = ''any''"
      and one: "\<not> tm_array (rf_typeMeta relationField)"
      and child: "childNode = \<lparr> node_ref = Ref fresh, node_labels = labelsOf refNode ctx \<rparr>"
      and pat: "pat = matchPatternOf relationField parentNode childNode (Ref (Suc fresh))"
      and inner: "inner = createWherePredicate whereInput childNode refNode ctx ''single''"
  shows "\<exists>res. createRelationshipOperation labelsOf getListPredicate createWherePredicate fresh
           relationField ctx parentNode operator (Some whereInput) isNot = Inr res
         \<and> op_predicate res =
             (case wp_predicate inner of
                None \<Rightarrow> None
              | Some p \<Rightarrow> Some (Cypher_single childNode
                                 (Cypher_PatternComprehension pat (NodeExpr childNode) None) p))"
  using assms
  by (cases "wp_predicate (createWherePredicate whereInput childNode refNode ctx ''single'')")
     (simp_all add: createRelationshipOperation_def Let_def single_form no_inner)

theorem to_one_downgraded_to_single_witness:
  "\<exists>res. createRelationshipOperation getLabels fx_getListPredicate fx_createWherePredicate 1
       fx_director fx_context fx_parent None (Some ''Lana'') False = Inr res
     \<and> op_predicate res =
         Some (Cypher_single \<lparr> node_ref = Ref 1, node_labels = [''Person''] \<rparr>
                 (Cypher_PatternComprehension
                    (matchPatternOf fx_director fx_parent
                       \<lparr> node_ref = Ref 1, node_labels = [''Person''] \<rparr> (Ref 2))
                    (NodeExpr \<lparr> node_ref = Ref 1, node_labels = [''Person''] \<rparr>) None)
                 (Cypher_eq (Cypher_Property (Ref 1) ''name'') (Cypher_Literal (LStr ''Lana''))))"
proof -
  have any: "fx_getListPredicate None = ''any''" by (simp add: fx_getListPredicate_def)
  have one: "\<not> tm_array (rf_typeMeta fx_director)" by (simp add: fx_director_def)
  have child: "\<lparr> node_ref = Ref 1, node_labels = [''Person''] \<rparr> =
      \<lparr> node_ref = Ref 1, node_labels = getLabels \<lparr> nd_name = ''Person'', nd_customLabels = None \<rparr> fx_context \<rparr>"
    by (simp add: getLabels_def)
  have two: "Ref 2 = Ref (Suc 1)" by simp
  show ?thesis
    using to_one_downgraded_to_single [where relationField = fx_director and ctx = fx_context
        and refNode = "\<lparr> nd_name = ''Person'', nd_customLabels = None \<rparr>"
        and getListPredicate = fx_getListPredicate and operator = None
        and labelsOf = getLabels and createWherePredicate = fx_createWherePredicate
        and fresh = 1 and parentNode = fx_parent and whereInput = "''Lana''" and isNot = False
        and childNode = "\<lparr> node_ref = Ref 1, node_labels = [''Person''] \<rparr>"
        and pat = "matchPatternOf fx_director fx_parent \<lparr> node_ref = Ref 1, node_labels = [''Person''] \<rparr> (Ref 2)"
        and inner = "fx_createWherePredicate ''Lana'' \<lparr> node_ref = Ref 1, node_labels = [''Person''] \<rparr>
                       \<lparr> nd_name = ''Person'', nd_customLabels = None \<rparr> fx_context ''single''",
        OF fx_find_person any one child]
    unfolding two
    by (simp add: fx_createWherePredicate_def)
qed

section \<open>Custom labels\<close>




section \<open>Interface filters\<close>

lemma exists_decided:
  assumes "\<not> asserts (Cypher_Exists m)"
  shows "decided g ps (Cypher_Exists m) env"
proof -
  obtain pat w where m: "m = Cypher_Match pat w" by (cases m)
  from assms obtain t where "eval g ps env (Cypher_Exists m) = Inr t"
    using no_assertion_total by blast
  then show ?thesis
    unfolding m by (auto simp: decided_def holds_def fails_def split: sum.splits)
qed

lemma eval_foldl_or:
  assumes "decided g ps p env" and "\<forall>b \<in> set bs. decided g ps b env"
  shows "eval g ps env (foldl Cypher_or p bs)
         = Inr (Some (holds g ps p env \<or> (\<exists>b \<in> set bs. holds g ps b env)))"
  using assms
proof (induction bs arbitrary: p)
  case Nil
  then show ?case by (simp add: decided_eval)
next
  case (Cons b bs)
  have e: "eval g ps env (Cypher_or p b) = Inr (Some (holds g ps p env \<or> holds g ps b env))"
    using Cons.prems by (auto simp: decided_eval or3_def)
  then have d: "decided g ps (Cypher_or p b) env"
    and h: "holds g ps (Cypher_or p b) env = (holds g ps p env \<or> holds g ps b env)"
    by (auto simp: decided_def holds_def fails_def)
  have "eval g ps env (foldl Cypher_or (Cypher_or p b) bs) =
          Inr (Some (holds g ps (Cypher_or p b) env \<or> (\<exists>b \<in> set bs. holds g ps b env)))"
    using Cons.prems d by (intro Cons.IH) auto
  then show ?case by (auto simp: h)
qed

lemma eval_combine_or:
  assumes "\<forall>b \<in> set bs. decided g ps b env" and "combine Cypher_or bs = Some q"
  shows "eval g ps env q = Inr (Some (\<exists>b \<in> set bs. holds g ps b env))"
proof (cases bs)
  case Nil
  with assms show ?thesis by simp
next
  case (Cons p ps)
  with assms have "q = foldl Cypher_or p ps" by simp
  with assms(1) Cons show ?thesis by (simp add: eval_foldl_or)
qed

lemma interfaceBranch_some:
  assumes "l \<noteq> ''all''" "l \<noteq> ''not''" "l \<noteq> ''none''" "l \<noteq> ''single''"
  shows "interfaceBranch labelsOf cwp rf ctx parent l l w r impl =
     map_option (\<lambda>p. Cypher_Exists (Cypher_Match
         (matchPatternOf rf parent \<lparr> node_ref = Ref r, node_labels = labelsOf impl ctx \<rparr> (Ref (Suc r))) (Some p)))
       (wp_predicate (cwp w \<lparr> node_ref = Ref r, node_labels = labelsOf impl ctx \<rparr> impl ctx l))"
  using assms
  by (cases "wp_predicate (cwp w \<lparr> node_ref = Ref r, node_labels = labelsOf impl ctx \<rparr> impl ctx l)")
     (simp_all add: interfaceBranch_def Let_def some_form no_inner)

lemma set_map_filter_id: "set (List.map_filter id xs) = {y. Some y \<in> set xs}"
  by (induction xs) (auto split: option.splits)

lemma in_map_upt: "y \<in> set (map f [0..<n]) \<longleftrightarrow> (\<exists>i<n. f i = y)"
  by (auto simp: image_iff)

text \<open>
  C4. At the SOME level (the list predicate is none of \<open>all\<close>, \<open>not\<close>, \<open>none\<close>,
  \<open>single\<close>) the filter on an interface relationship is the disjunction, in the order
  of the concrete types, of one branch per concrete type whose inner predicate is not
  empty; the branch of a type is \<open>EXISTS\<close> of the match pattern whose child node carries
  that type's labels, with that type's inner predicate; and, the branches being
  filters (no assertion occurs in them), the filter holds iff some branch holds.
\<close>

theorem interface_filter_or_branches:
  assumes some: "l \<noteq> ''all''" "l \<noteq> ''not''" "l \<noteq> ''none''" "l \<noteq> ''single''"
      and bs: "branches = List.map_filter id
                 (interfaceBranches labelsOf cwp fresh rf ctx parent l l w impls)"
  shows "createInterfaceRelationshipOperation labelsOf cwp fresh rf ctx parent l w impls =
           Inr (combine Cypher_or branches)
       \<and> (\<forall>i < length impls. \<forall>p.
            wp_predicate (cwp w \<lparr> node_ref = Ref (fresh + 2 * i), node_labels = labelsOf (impls ! i) ctx \<rparr>
                            (impls ! i) ctx l) = Some p \<longrightarrow>
            Cypher_Exists (Cypher_Match
               (matchPatternOf rf parent
                  \<lparr> node_ref = Ref (fresh + 2 * i), node_labels = labelsOf (impls ! i) ctx \<rparr>
                  (Ref (Suc (fresh + 2 * i)))) (Some p)) \<in> set branches)
       \<and> (\<forall>b \<in> set branches. \<exists>i < length impls. \<exists>p.
            b = Cypher_Exists (Cypher_Match
               (matchPatternOf rf parent
                  \<lparr> node_ref = Ref (fresh + 2 * i), node_labels = labelsOf (impls ! i) ctx \<rparr>
                  (Ref (Suc (fresh + 2 * i)))) (Some p)))
       \<and> ((\<forall>b \<in> set branches. \<not> asserts b) \<longrightarrow>
            (\<forall>q. combine Cypher_or branches = Some q \<longrightarrow>
                 eval g ps env q = Inr (Some (\<exists>b \<in> set branches. holds g ps b env))))"
    (is "?A \<and> ?B \<and> ?C \<and> ?D")
proof -
  have A: ?A using some by (simp add: createInterfaceRelationshipOperation_def bs)
  have mem: "\<And>b. b \<in> set branches \<longleftrightarrow>
      (\<exists>i < length impls. interfaceBranch labelsOf cwp rf ctx parent l l w (fresh + 2 * i) (impls ! i) = Some b)"
    unfolding bs set_map_filter_id interfaceBranches_def in_map_upt by simp
  have B: ?B
  proof (intro allI impI)
    fix i p assume "i < length impls"
      and "wp_predicate (cwp w \<lparr> node_ref = Ref (fresh + 2 * i), node_labels = labelsOf (impls ! i) ctx \<rparr>
                            (impls ! i) ctx l) = Some p"
    then show "Cypher_Exists (Cypher_Match
               (matchPatternOf rf parent
                  \<lparr> node_ref = Ref (fresh + 2 * i), node_labels = labelsOf (impls ! i) ctx \<rparr>
                  (Ref (Suc (fresh + 2 * i)))) (Some p)) \<in> set branches"
      unfolding mem by (intro exI[of _ i]) (simp add: interfaceBranch_some[OF some])
  qed
  have C: ?C
  proof
    fix b assume "b \<in> set branches"
    then obtain i where i: "i < length impls"
      and b: "interfaceBranch labelsOf cwp rf ctx parent l l w (fresh + 2 * i) (impls ! i) = Some b"
      unfolding mem by blast
    from b show "\<exists>i < length impls. \<exists>p.
            b = Cypher_Exists (Cypher_Match
               (matchPatternOf rf parent
                  \<lparr> node_ref = Ref (fresh + 2 * i), node_labels = labelsOf (impls ! i) ctx \<rparr>
                  (Ref (Suc (fresh + 2 * i)))) (Some p))"
      unfolding interfaceBranch_some[OF some] using i by auto
  qed
  have D: ?D
  proof (intro impI allI)
    fix q assume na: "\<forall>b \<in> set branches. \<not> asserts b" and q: "combine Cypher_or branches = Some q"
    have "\<forall>b \<in> set branches. decided g ps b env"
    proof
      fix b assume b: "b \<in> set branches"
      with C obtain m where "b = Cypher_Exists m" by blast
      with na b show "decided g ps b env" by (auto intro: exists_decided)
    qed
    then show "eval g ps env q = Inr (Some (\<exists>b \<in> set branches. holds g ps b env))"
      using q by (rule eval_combine_or)
  qed
  from A B C D show ?thesis by blast
qed

lemma fx_branches:
  "List.map_filter id (interfaceBranches getLabels fx_createWherePredicate 1 fx_animals fx_context
      fx_house ''some'' ''some'' ''Nala'' fx_animal_types) = [fx_dog_branch, fx_cat_branch]"
  by (simp add: interfaceBranches_def interfaceBranch_def Let_def some_form getLabels_def
        fx_animal_types_def fx_createWherePredicate_def fx_dog_branch_def fx_cat_branch_def
        List.map_filter_def upt_rec numeral_2_eq_2 numeral_3_eq_3 eval_nat_numeral)

theorem interface_filter_or_branches_witness:
  "createInterfaceRelationshipOperation getLabels fx_createWherePredicate 1 fx_animals fx_context
      fx_house ''some'' ''Nala'' fx_animal_types = Inr (Some (Cypher_or fx_dog_branch fx_cat_branch))
   \<and> eval fx_houses [] [(Ref 0, VNode fx_second_house)] fx_dog_branch = Inr (Some False)
   \<and> eval fx_houses [] [(Ref 0, VNode fx_second_house)] fx_cat_branch = Inr (Some True)
   \<and> eval fx_houses [] [(Ref 0, VNode fx_second_house)] (Cypher_or fx_dog_branch fx_cat_branch)
     = Inr (Some True)"
proof -
  have d: "eval fx_houses [] [(Ref 0, VNode fx_second_house)] fx_dog_branch = Inr (Some False)"
    by (simp add: fx_dog_branch_def house_defs sem_defs)
  have c: "eval fx_houses [] [(Ref 0, VNode fx_second_house)] fx_cat_branch = Inr (Some True)"
    by (simp add: fx_cat_branch_def house_defs sem_defs)
  have dec: "\<forall>b \<in> set [fx_dog_branch, fx_cat_branch]. \<not> asserts b"
    by (simp add: fx_dog_branch_def fx_cat_branch_def)
  note t = interface_filter_or_branches [where l = "''some''" and labelsOf = getLabels
      and cwp = fx_createWherePredicate and fresh = 1 and rf = fx_animals and ctx = fx_context
      and parent = fx_house and w = "''Nala''" and impls = fx_animal_types
      and branches = "[fx_dog_branch, fx_cat_branch]" and g = fx_houses and ps = "[]"
      and env = "[(Ref 0, VNode fx_second_house)]", OF _ _ _ _ fx_branches [symmetric]]
  have t': "createInterfaceRelationshipOperation getLabels fx_createWherePredicate 1 fx_animals
       fx_context fx_house ''some'' ''Nala'' fx_animal_types =
         Inr (combine Cypher_or [fx_dog_branch, fx_cat_branch])"
    and e: "\<forall>q. combine Cypher_or [fx_dog_branch, fx_cat_branch] = Some q \<longrightarrow>
          eval fx_houses [] [(Ref 0, VNode fx_second_house)] q =
          Inr (Some (\<exists>b \<in> set [fx_dog_branch, fx_cat_branch].
                        holds fx_houses [] b [(Ref 0, VNode fx_second_house)]))"
    using t dec by simp_all
  from e have "eval fx_houses [] [(Ref 0, VNode fx_second_house)] (Cypher_or fx_dog_branch fx_cat_branch)
               = Inr (Some True)"
    using c by (simp add: holds_def)
  with t' d c show ?thesis by simp
qed

section \<open>Authorization rules\<close>

text \<open>
  C5. In the edge subquery, the \<open>WHERE\<close> of the match is the conjunction, in this
  order, of the connection filter, of the predicate of the filter rules as it is, and of
  the predicate of the validate rules negated and wrapped in \<open>ValidatePredicate\<close> with
  the message \<open>AUTH_FORBIDDEN_ERROR\<close> (each only when present). On a row, a filter that
  fails drops the row without a failure; on a row the filters keep, the validate rule
  never drops the row: the \<open>WHERE\<close> is true when the rule holds and the evaluation
  fails with the message when the rule fails. Whatever the values on the row, null
  included: when the evaluation does not fail the row is kept iff the filters hold, and
  the evaluation fails with this message only, and only when the rule fails. (The three
  compiled predicates are themselves free of assertions.)
\<close>

theorem auth_filter_and_validate:
  assumes rn: "relatedNodeRef = \<lparr> node_ref = Named (parentNode @ ''_'' @ nd_name relatedNode),
                                   node_labels = labelsOf relatedNode ctx \<rparr>"
      and rr: "relationshipRef = \<lparr> rel_ref = Ref fresh,
                  rel_source = \<lparr> node_ref = Named parentNode, node_labels = [] \<rparr>,
                  rel_target = relatedNodeRef, rel_type = rf_type (cf_relationship field) \<rparr>"
      and w: "w = (case whereInput of None \<Rightarrow> None
                   | Some wi \<Rightarrow> createConnectionWherePropertyOperation ctx wi relationshipRef
                        relatedNodeRef relatedNode
                        (find (\<lambda>r. sr_name r = cf_relationshipTypeName field) (ctx_relationships ctx)))"
      and f: "filterRule = createAuthPredicates
                \<lparr> auth_operations = ''READ'', auth_entity = relatedNode,
                  auth_where = Some (relatedNodeRef, relatedNode), auth_allow = None \<rparr> ctx"
      and a: "validateRule = createAuthPredicates
                \<lparr> auth_operations = ''READ'', auth_entity = relatedNode,
                  auth_where = None, auth_allow = Some (relatedNode, relatedNodeRef) \<rparr> ctx"
      and sub: "sub = createEdgeSubquery labelsOf getPattern createConnectionWherePropertyOperation
                  createAuthPredicates createEdgeProjection forbidden fresh
                  resolveTree field ctx parentNode relatedNode returnVariable whereInput"
      and inner: "\<not> asserts_opt w" "\<not> asserts_opt filterRule" "\<not> asserts_opt validateRule"
  shows "where_of (es_match sub) =
           combine Cypher_and
             (List.map_filter id
                [w, filterRule,
                 map_option (\<lambda>p. ValidatePredicate (Cypher_not p) forbidden) validateRule])
         \<and> (fails_opt g ps w row \<or> fails_opt g ps filterRule row \<longrightarrow>
              eval_where g ps row (where_of (es_match sub)) = Inr (Some False))
         \<and> (holds_opt g ps w row \<and> holds_opt g ps filterRule row \<longrightarrow>
              (holds_opt g ps validateRule row \<longrightarrow>
                 eval_where g ps row (where_of (es_match sub)) = Inr (Some True))
            \<and> (fails_opt g ps validateRule row \<longrightarrow>
                 eval_where g ps row (where_of (es_match sub)) = Inl forbidden))
         \<and> (\<forall>t. eval_where g ps row (where_of (es_match sub)) = Inr t \<longrightarrow>
                (t = Some True) = (holds_opt g ps w row \<and> holds_opt g ps filterRule row))
         \<and> (\<forall>m. eval_where g ps row (where_of (es_match sub)) = Inl m \<longrightarrow>
                m = forbidden \<and> fails_opt g ps validateRule row)"
    (is "?S \<and> ?Drop \<and> ?Keep \<and> ?Kept \<and> ?Raise")
proof -
  obtain tw where tw: "eval_where g ps row w = Inr tw"
    using no_assertion_total_opt [OF inner(1)] by blast
  obtain tf where tf: "eval_where g ps row filterRule = Inr tf"
    using no_assertion_total_opt [OF inner(2)] by blast
  obtain tv where tv: "eval_where g ps row validateRule = Inr tv"
    using no_assertion_total_opt [OF inner(3)] by blast
  let ?rel = "find (\<lambda>r. sr_name r = cf_relationshipTypeName field) (ctx_relationships ctx)"
  let ?pat = "getPattern relationshipRef (cf_relationship field) resolveTree"
  let ?v = "map_option (\<lambda>p. ValidatePredicate (Cypher_not p) forbidden) validateRule"
  have m: "es_match sub =
      (let m1 = (case w of None \<Rightarrow> Cypher_Match ?pat None | Some p \<Rightarrow> match_where (Cypher_Match ?pat None) p);
           m2 = (case filterRule of None \<Rightarrow> m1 | Some p \<Rightarrow> match_where m1 p)
       in case ?v of None \<Rightarrow> m2 | Some p \<Rightarrow> match_where m2 p)"
    unfolding sub createEdgeSubquery_def Let_def rn[symmetric] rr[symmetric] f[symmetric] a[symmetric]
    unfolding w
    by (simp split: option.splits)
  have s: "where_of (es_match sub) = combine Cypher_and (List.map_filter id [w, filterRule, ?v])"
    unfolding m by (cases w; cases filterRule; cases validateRule) (simp_all add: List.map_filter_def)
  define W where "W = eval_where g ps row (where_of (es_match sub))"
  have e: "W = (if tw = Some False \<or> tf = Some False then Inr (Some False)
               else if tv = Some False then Inl forbidden
               else Inr (and3 tw tf))"
    unfolding W_def s using tw tf tv
    by (cases w; cases filterRule; cases validateRule)
       (auto simp: List.map_filter_def eval_where_def and3_def)
  have hw: "holds_opt g ps w row = (tw = Some True)" "fails_opt g ps w row = (tw = Some False)"
    using tw by (simp_all add: holds_opt_def fails_opt_def)
  have hf: "holds_opt g ps filterRule row = (tf = Some True)"
    "fails_opt g ps filterRule row = (tf = Some False)"
    using tf by (simp_all add: holds_opt_def fails_opt_def)
  have hv: "holds_opt g ps validateRule row = (tv = Some True)"
    "fails_opt g ps validateRule row = (tv = Some False)"
    using tv by (simp_all add: holds_opt_def fails_opt_def)
  have Drop: "fails_opt g ps w row \<or> fails_opt g ps filterRule row \<longrightarrow> W = Inr (Some False)"
    unfolding hw hf e by simp
  have Keep: "holds_opt g ps w row \<and> holds_opt g ps filterRule row \<longrightarrow>
              (holds_opt g ps validateRule row \<longrightarrow> W = Inr (Some True))
            \<and> (fails_opt g ps validateRule row \<longrightarrow> W = Inl forbidden)"
    unfolding hw hf hv e by (simp add: and3_def)
  have Kept: "\<forall>t. W = Inr t \<longrightarrow>
                (t = Some True) = (holds_opt g ps w row \<and> holds_opt g ps filterRule row)"
    unfolding hw hf e by (cases tw; cases tf) (auto simp: and3_def)
  have Raise: "\<forall>m. W = Inl m \<longrightarrow> m = forbidden \<and> fails_opt g ps validateRule row"
    unfolding hv e by simp
  from s Drop Keep Kept Raise show ?thesis unfolding W_def by blast
qed

theorem auth_filter_and_validate_witness:
  "where_of (es_match fx_edge_subquery) =
     Some (Cypher_and fx_published (ValidatePredicate (Cypher_not fx_is_owner) ''Forbidden''))
   \<and> eval_where fx_graph fx_claims (fx_post ''u2'' True) (where_of (es_match fx_edge_subquery))
       = Inl ''Forbidden''
   \<and> eval_where fx_graph fx_claims (fx_post ''u1'' True) (where_of (es_match fx_edge_subquery))
       = Inr (Some True)
   \<and> eval_where fx_graph fx_claims (fx_post ''u2'' False) (where_of (es_match fx_edge_subquery))
       = Inr (Some False)"
proof -
  have f: "Some fx_published = fx_createAuthPredicates
                \<lparr> auth_operations = ''READ'', auth_entity = fx_post_type,
                  auth_where = Some (\<lparr> node_ref = Named (''this'' @ ''_'' @ nd_name fx_post_type),
                                   node_labels = getLabels fx_post_type fx_context \<rparr>, fx_post_type),
                  auth_allow = None \<rparr> fx_context"
    by (simp add: fx_createAuthPredicates_def fx_published_def fx_post_type_def)
  have a: "Some fx_is_owner = fx_createAuthPredicates
                \<lparr> auth_operations = ''READ'', auth_entity = fx_post_type,
                  auth_where = None,
                  auth_allow = Some (fx_post_type,
                     \<lparr> node_ref = Named (''this'' @ ''_'' @ nd_name fx_post_type),
                       node_labels = getLabels fx_post_type fx_context \<rparr>) \<rparr> fx_context"
    by (simp add: fx_createAuthPredicates_def fx_is_owner_def fx_post_type_def)
  have w: "None = (case (None :: unit option) of None \<Rightarrow> None
                   | Some wi \<Rightarrow> (\<lambda>c w r t n s. None) fx_context wi
                        \<lparr> rel_ref = Ref 0,
                          rel_source = \<lparr> node_ref = Named ''this'', node_labels = [] \<rparr>,
                          rel_target = \<lparr> node_ref = Named (''this'' @ ''_'' @ nd_name fx_post_type),
                                         node_labels = getLabels fx_post_type fx_context \<rparr>,
                          rel_type = rf_type (cf_relationship fx_posts) \<rparr>
                        \<lparr> node_ref = Named (''this'' @ ''_'' @ nd_name fx_post_type),
                          node_labels = getLabels fx_post_type fx_context \<rparr> fx_post_type
                        (find (\<lambda>r. sr_name r = cf_relationshipTypeName fx_posts) (ctx_relationships fx_context)))"
    by simp
  have dw: "\<not> asserts_opt None"
    and df: "\<not> asserts_opt (Some fx_published)"
    and da: "\<not> asserts_opt (Some fx_is_owner)"
    by (simp_all add: asserts_opt_def fx_published_def fx_is_owner_def)
  note t = auth_filter_and_validate [OF refl refl w f a fx_edge_subquery_def dw df da,
      where g = fx_graph and ps = fx_claims]
  have hw: "holds_opt fx_graph fx_claims None row" for row
    by (simp add: holds_opt_def eval_where_def)
  have hf: "holds_opt fx_graph fx_claims (Some fx_published) (fx_post owner pub) = pub"
    and ff: "fails_opt fx_graph fx_claims (Some fx_published) (fx_post owner pub) = (\<not> pub)"
    for owner pub
    by (simp_all add: holds_opt_def fails_opt_def eval_where_def fx_published_def fx_post_def sem_defs)
  have ha: "holds_opt fx_graph fx_claims (Some fx_is_owner) (fx_post owner pub) = (owner = ''u1'')"
    and fa: "fails_opt fx_graph fx_claims (Some fx_is_owner) (fx_post owner pub) = (owner \<noteq> ''u1'')"
    for owner pub
    by (auto simp add: holds_opt_def fails_opt_def eval_where_def fx_is_owner_def fx_post_def
          fx_claims_def sem_defs)
  have s: "where_of (es_match fx_edge_subquery) =
     Some (Cypher_and fx_published (ValidatePredicate (Cypher_not fx_is_owner) ''Forbidden''))"
    using t [where row = "fx_post ''u2'' True", THEN conjunct1] by (simp add: List.map_filter_def)
  have r1: "eval_where fx_graph fx_claims (fx_post ''u2'' True) (where_of (es_match fx_edge_subquery))
       = Inl ''Forbidden''"
    using t [where row = "fx_post ''u2'' True", THEN conjunct2, THEN conjunct2, THEN conjunct1]
    by (simp add: hw hf fa)
  have r2: "eval_where fx_graph fx_claims (fx_post ''u1'' True) (where_of (es_match fx_edge_subquery))
       = Inr (Some True)"
    using t [where row = "fx_post ''u1'' True", THEN conjunct2, THEN conjunct2, THEN conjunct1]
    by (simp add: hw hf ha)
  have r3: "eval_where fx_graph fx_claims (fx_post ''u2'' False) (where_of (es_match fx_edge_subquery))
       = Inr (Some False)"
    using t [where row = "fx_post ''u2'' False", THEN conjunct2, THEN conjunct1]
    by (simp add: ff)
  from s r1 r2 r3 show ?thesis by blast
qed

section \<open>Parameter names\<close>







subsection \<open>The renderer's parameter map\<close>







subsection \<open>The parameter map of connect-or-create\<close>



















section \<open>Populated-by callbacks: outcomes\<close>

text \<open>
  C9. When the callback of a field returns null, the field then reads as null; when it
  returns no value, the field reads as before; in both cases every other property reads
  as before. The callback is invoked once, and the outcome depends on that invocation
  only.
\<close>

theorem populated_by_outcomes:
  "(callback (pb_calls st) = Null \<longrightarrow> readField (applyPopulatedBy f callback st) f = None)
   \<and> (callback (pb_calls st) = Undefined \<longrightarrow>
        readField (applyPopulatedBy f callback st) f = readField st f)
   \<and> (callback (pb_calls st) = Null \<or> callback (pb_calls st) = Undefined \<longrightarrow>
        (\<forall>k. k \<noteq> f \<longrightarrow> readField (applyPopulatedBy f callback st) k = readField st k))
   \<and> pb_calls (applyPopulatedBy f callback st) = Suc (pb_calls st)
   \<and> (callback' (pb_calls st) = callback (pb_calls st) \<longrightarrow>
        applyPopulatedBy f callback' st = applyPopulatedBy f callback st)"
  by (auto simp: applyPopulatedBy_def readField_def split: callback_result.splits)

theorem populated_by_outcomes_witness:
  "readField (applyPopulatedBy ''callback'' fx_returns_null fx_stored) ''callback'' = None
   \<and> readField (applyPopulatedBy ''callback'' fx_returns_null fx_stored) ''id'' = Some ''m1''
   \<and> pb_calls (applyPopulatedBy ''callback'' fx_returns_null fx_stored) = 1
   \<and> readField (applyPopulatedBy ''callback'' fx_returns_nothing fx_stored) ''callback'' = Some ''old''
   \<and> readField (applyPopulatedBy ''callback'' fx_returns_nothing fx_stored) ''id'' = Some ''m1''"
proof -
  have n: "fx_returns_null (pb_calls fx_stored) = Null"
    and u: "fx_returns_nothing (pb_calls fx_stored) = Undefined"
    and r: "readField fx_stored ''callback'' = Some ''old''" "readField fx_stored ''id'' = Some ''m1''"
    by (simp_all add: fx_stored_def fx_returns_null_def fx_returns_nothing_def readField_def)
  have ne: "''id'' \<noteq> ''callback''" by simp
  from populated_by_outcomes [where callback = fx_returns_null and st = fx_stored
         and f = "''callback''" and callback' = fx_returns_null]
       populated_by_outcomes [where callback = fx_returns_nothing and st = fx_stored
         and f = "''callback''" and callback' = fx_returns_nothing]
       n u r ne
  show ?thesis by (simp add: fx_stored_def)
qed

end
